theory Spec2Isabelle
  imports Complex_Main "HOL-Library.Sublist"
begin

section \<open>Strings as the Python code uses them\<close>

text \<open>
  A Python \<open>str\<close> is modelled as a \<open>string\<close>: one \<open>char\<close> per code point, for
  code points below 256.  The character classes below are the ones of Python 3 on that
  range: \<open>str.isspace\<close> (also the class \<open>\s\<close> of \<open>re\<close>), the word
  characters of \<open>re\<close> (\<open>\w\<close>: alphanumeric or underscore) and \<open>str.lower\<close>.
\<close>

definition is_space :: "char \<Rightarrow> bool" where
  "is_space c = (let n = (of_char c :: nat) in
     (9 \<le> n \<and> n \<le> 13) \<or> (28 \<le> n \<and> n \<le> 32) \<or> n = 133 \<or> n = 160)"

definition is_word :: "char \<Rightarrow> bool" where
  "is_word c = (let n = (of_char c :: nat) in
     (48 \<le> n \<and> n \<le> 57) \<or> (65 \<le> n \<and> n \<le> 90) \<or> n = 95 \<or> (97 \<le> n \<and> n \<le> 122) \<or>
     n = 170 \<or> n = 178 \<or> n = 179 \<or> n = 181 \<or> n = 185 \<or> n = 186 \<or>
     (188 \<le> n \<and> n \<le> 190) \<or> (192 \<le> n \<and> n \<le> 214) \<or> (216 \<le> n \<and> n \<le> 246) \<or>
     (248 \<le> n \<and> n \<le> 255))"

definition lower_char :: "char \<Rightarrow> char" where
  "lower_char c = (let n = (of_char c :: nat) in
     if (65 \<le> n \<and> n \<le> 90) \<or> (192 \<le> n \<and> n \<le> 222 \<and> n \<noteq> 215) then char_of (n + 32) else c)"

definition lower :: "string \<Rightarrow> string" where
  "lower s = map lower_char s"

text \<open>\<open>s.strip()\<close>: leading and trailing whitespace removed.\<close>

definition lstrip :: "string \<Rightarrow> string" where
  "lstrip s = dropWhile is_space s"

definition rstrip :: "string \<Rightarrow> string" where
  "rstrip s = rev (dropWhile is_space (rev s))"

definition strip :: "string \<Rightarrow> string" where
  "strip s = rstrip (lstrip s)"

text \<open>\<open>sub in s\<close>.\<close>

fun contains :: "string \<Rightarrow> string \<Rightarrow> bool" where
  "contains sub [] = (sub = [])"
| "contains sub (c # cs) = (prefix sub (c # cs) \<or> contains sub cs)"

text \<open>\<open>s.find(sub)\<close>: the index of the leftmost occurrence, \<open>None\<close> for Python's -1.\<close>

fun find_sub :: "string \<Rightarrow> string \<Rightarrow> nat option" where
  "find_sub sub [] = (if sub = [] then Some 0 else None)"
| "find_sub sub (c # cs) =
     (if prefix sub (c # cs) then Some 0 else map_option Suc (find_sub sub cs))"

text \<open>
  \<open>s.count(sub)\<close>: the number of non-overlapping occurrences, scanning from the left.
  The counter \<open>skip\<close> holds how many characters of the last occurrence are still to be
  passed over.
\<close>

fun count_from :: "string \<Rightarrow> nat \<Rightarrow> string \<Rightarrow> nat" where
  "count_from sub skip [] = 0"
| "count_from sub (Suc k) (c # cs) = count_from sub k cs"
| "count_from sub 0 (c # cs) =
     (if prefix sub (c # cs) then Suc (count_from sub (length sub - 1) cs)
      else count_from sub 0 cs)"

definition str_count :: "string \<Rightarrow> string \<Rightarrow> nat" where
  "str_count sub s = (if sub = [] then length s + 1 else count_from sub 0 s)"

text \<open>\<open>str(n)\<close> for a non-negative integer.\<close>

fun str_nat :: "nat \<Rightarrow> string" where
  "str_nat n = (if n < 10 then [char_of (48 + n)]
                else str_nat (n div 10) @ [char_of (48 + n mod 10)])"

declare str_nat.simps [simp del]

section \<open>Regular expressions of the code, as matchers\<close>

text \<open>
  Each pattern of the source is written out as a function that tries a match anchored at
  the head of the remaining text and returns the first group and the length of the whole
  match.  The matcher also receives the character before the position, which the
  word-boundary assertion \<open>\b\<close> needs.  No pattern of the source matches the empty
  string.
\<close>

type_synonym matcher = "char option \<Rightarrow> string \<Rightarrow> (string \<times> nat) option"

text \<open>
  \<open>re.findall\<close>: the groups of the non-overlapping matches from left to right.  After
  a match the scan resumes behind it: \<open>skip\<close> counts its remaining characters.
\<close>

fun findall_from :: "matcher \<Rightarrow> nat \<Rightarrow> char option \<Rightarrow> string \<Rightarrow> string list" where
  "findall_from m skip prev [] = []"
| "findall_from m (Suc k) prev (c # cs) = findall_from m k (Some c) cs"
| "findall_from m 0 prev (c # cs) =
     (case m prev (c # cs) of
        Some (g, n) \<Rightarrow> g # findall_from m (n - 1) (Some c) cs
      | None \<Rightarrow> findall_from m 0 (Some c) cs)"

definition re_findall :: "matcher \<Rightarrow> string \<Rightarrow> string list" where
  "re_findall m s = findall_from m 0 None s"

text \<open>\<open>re.search(...)\<close> used as a truth value: is there a match anywhere.\<close>

definition re_search :: "matcher \<Rightarrow> string \<Rightarrow> bool" where
  "re_search m s = (re_findall m s \<noteq> [])"

text \<open>\<open>re.sub(pattern, "", s)\<close>: every non-overlapping match deleted.\<close>

fun sub_from :: "matcher \<Rightarrow> nat \<Rightarrow> char option \<Rightarrow> string \<Rightarrow> string" where
  "sub_from m skip prev [] = []"
| "sub_from m (Suc k) prev (c # cs) = sub_from m k (Some c) cs"
| "sub_from m 0 prev (c # cs) =
     (case m prev (c # cs) of
        Some (g, n) \<Rightarrow> sub_from m (n - 1) (Some c) cs
      | None \<Rightarrow> c # sub_from m 0 (Some c) cs)"

definition re_sub_delete :: "matcher \<Rightarrow> string \<Rightarrow> string" where
  "re_sub_delete m s = sub_from m 0 None s"

text \<open>
  A quoted name, \<open>"[\w-]+"\<close>: the name and what follows the closing quote.  The greedy
  class stops at the first character outside it, and only the closing quote may follow.
\<close>

definition is_name_char :: "char \<Rightarrow> bool" where
  "is_name_char c = (is_word c \<or> c = CHR ''-'')"

definition quoted_name :: "string \<Rightarrow> (string \<times> string) option" where
  "quoted_name s =
     (case s of
        [] \<Rightarrow> None
      | q # r \<Rightarrow>
          if q \<noteq> CHR 0x22 then None
          else let name = takeWhile is_name_char r; r' = dropWhile is_name_char r in
            if name = [] then None
            else (case r' of [] \<Rightarrow> None
                  | q' # r'' \<Rightarrow> if q' = CHR 0x22 then Some (name, r'') else None))"

text \<open>\<open>\s+\<close> before a character that is not whitespace: the rest behind the run.\<close>

definition spaces1 :: "string \<Rightarrow> string option" where
  "spaces1 s = (if takeWhile is_space s = [] then None else Some (dropWhile is_space s))"

text \<open>The pattern \<open>resource\s+"[\w-]+"\s+"[\w-]+"\<close> of the Terraform check.\<close>

definition resource_pattern :: matcher where
  "resource_pattern prev s =
     (if \<not> prefix ''resource'' s then None
      else case spaces1 (drop 8 s) of
        None \<Rightarrow> None
      | Some r1 \<Rightarrow>
          (case quoted_name r1 of
             None \<Rightarrow> None
           | Some (ty, r2) \<Rightarrow>
               (case spaces1 r2 of
                  None \<Rightarrow> None
                | Some r3 \<Rightarrow>
                    (case quoted_name r3 of
                       None \<Rightarrow> None
                     | Some (nm, r4) \<Rightarrow> Some (take (length s - length r4) s, length s - length r4)))))"

section \<open>Heuristic validation of generated code (utils/formatters.py)\<close>

text \<open>
  \<open>CodeFormatter.validate_terraform_syntax\<close> returns the pair
  \<open>(is_valid, error_message)\<close>.
\<close>

definition validate_terraform_syntax :: "string \<Rightarrow> bool \<times> string option" where
  "validate_terraform_syntax code =
     (let open_braces = str_count ''{'' code;
          close_braces = str_count ''}'' code
      in if open_braces \<noteq> close_braces
         then (False, Some (''Unbalanced braces: '' @ str_nat open_braces @ '' open, ''
                            @ str_nat close_braces @ '' close''))
         else if \<not> contains ''resource'' code \<and> \<not> contains ''data'' code
                 \<and> \<not> contains ''module'' code
         then (False, Some ''No resources, data sources, or modules defined'')
         else if contains ''resource'' code \<and> \<not> re_search resource_pattern code
         then (False, Some ''Invalid resource declaration syntax'')
         else let quote_count = int (str_count [CHR 0x22] code)
                                 - int (str_count [CHR 0x5C, CHR 0x22] code)
              in if quote_count mod 2 \<noteq> 0
                 then (False, Some ''Unclosed quotes detected'')
                 else (True, None))"

text \<open>
  \<open>CodeFormatter.validate_cloudformation_syntax\<close>.  The loop over
  \<open>required_keys\<close> returns at the first key that is missing.  The indentation scan
  behind the two checks only writes a log line and never changes the verdict.
\<close>

definition required_keys :: "string list" where
  "required_keys = [''AWSTemplateFormatVersion'', ''Resources'']"

fun check_required_keys :: "string list \<Rightarrow> string \<Rightarrow> string option" where
  "check_required_keys [] code = None"
| "check_required_keys (key # keys) code =
     (if \<not> contains key code then Some (''Missing required key: '' @ key)
      else check_required_keys keys code)"

definition validate_cloudformation_syntax :: "string \<Rightarrow> bool \<times> string option" where
  "validate_cloudformation_syntax code =
     (case check_required_keys required_keys code of
        Some msg \<Rightarrow> (False, Some msg)
      | None \<Rightarrow>
          if \<not> prefix ''AWSTemplateFormatVersion:'' (strip code)
          then (False, Some ''Template must start with AWSTemplateFormatVersion'')
          else (True, None))"

section \<open>Validation of the raw LLM response (utils/validators.py)\<close>

text \<open>
  Exceptions are values; each carries the text that \<open>str(e)\<close> gives.
  \<open>OtherException\<close> stands for every class that the code does not tell apart.
\<close>

datatype exn =
    AssertionError string
  | ValueError string
  | HTTPException nat string
  | OtherException string

fun str_exn :: "exn \<Rightarrow> string" where
  "str_exn (AssertionError msg) = msg"
| "str_exn (ValueError msg) = msg"
| "str_exn (HTTPException status detail) = detail"
| "str_exn (OtherException msg) = msg"

text \<open>
  \<open>validate_llm_response\<close>: the two \<open>assert\<close> statements come first and raise
  \<open>AssertionError\<close>; behind them every path returns a pair
  \<open>(is_valid, error_message)\<close>.
\<close>

definition terraform_keywords :: "string list" where
  "terraform_keywords = [''resource'', ''provider'', ''variable'', ''output'']"

definition cf_keywords :: "string list" where
  "cf_keywords = [''AWSTemplateFormatVersion'', ''Resources'', ''Type:'', ''Properties:'']"

definition validate_llm_response :: "string \<Rightarrow> string \<Rightarrow> exn + (bool \<times> string option)" where
  "validate_llm_response response expected_format =
     (if response = [] then Inl (AssertionError ''Response cannot be empty'')
      else if expected_format \<notin> set [''terraform'', ''cloudformation'']
      then Inl (AssertionError (''Invalid format: '' @ expected_format))
      else if \<not> contains ''```'' response
      then Inr (False, Some ''Response does not contain code blocks'')
      else if expected_format = ''terraform''
      then (if \<not> list_ex (\<lambda>keyword. contains keyword (lower response)) terraform_keywords
            then Inr (False, Some ''Response does not appear to contain valid Terraform code'')
            else Inr (True, None))
      else if expected_format = ''cloudformation''
      then (if \<not> list_ex (\<lambda>keyword. contains keyword response) cf_keywords
            then Inr (False, Some ''Response does not appear to contain valid CloudFormation code'')
            else Inr (True, None))
      else Inr (True, None))"

section \<open>The response parser (models/llm_interface.py) and the formatter's extractors\<close>

text \<open>
  The lazy group \<open>(.*?)\<close> under \<open>re.DOTALL\<close> followed by the closing fence: the
  body runs to the leftmost fence behind the opening.  \<open>head\<close> is the number of
  characters matched before the body.
\<close>

definition fenced_body :: "nat \<Rightarrow> string \<Rightarrow> (string \<times> nat) option" where
  "fenced_body head body =
     (case find_sub ''```'' body of
        None \<Rightarrow> None
      | Some k \<Rightarrow> Some (take k body, head + k + 3))"

text \<open>
  The opening of a fence with a choice of language hints, each followed by a newline.
  The alternatives are tried in the order of the pattern; when the body behind one has no
  closing fence the next one is tried.
\<close>

fun hint_alternatives :: "string list \<Rightarrow> string \<Rightarrow> (string \<times> nat) option" where
  "hint_alternatives [] r = None"
| "hint_alternatives (h # hs) r =
     (if prefix (h @ ''\<newline>'') r
      then (case fenced_body (3 + length h + 1) (drop (length h + 1) r) of
              Some m \<Rightarrow> Some m
            | None \<Rightarrow> hint_alternatives hs r)
      else hint_alternatives hs r)"

text \<open>
  \<open>```(?:hcl|terraform|yaml|json)?\n(.*?)```\<close>: the optional group is greedy, so the
  four hints come before the empty one.
\<close>

definition hinted_fence :: matcher where
  "hinted_fence prev s =
     (if prefix ''```'' s
      then hint_alternatives [''hcl'', ''terraform'', ''yaml'', ''json'', []] (drop 3 s)
      else None)"

text \<open>\<open>```\n(.*?)```\<close>.\<close>

definition plain_fence :: matcher where
  "plain_fence prev s =
     (if prefix ''```'' s then hint_alternatives [[]] (drop 3 s) else None)"




text \<open>\<open>```.*?```\<close> under \<open>re.DOTALL\<close>; the pattern has no group.\<close>

definition any_fence :: matcher where
  "any_fence prev s =
     (if prefix ''```'' s
      then (case fenced_body 3 (drop 3 s) of
              None \<Rightarrow> None
            | Some (body, n) \<Rightarrow> Some (take n s, n))
      else None)"

text \<open>
  \<open>\b(K1|K2|...)\b\<close> under \<open>re.IGNORECASE\<close>.  \<open>\b\<close> holds between a word character
  and a character that is none (the ends of the text count as none).  An alternative
  matches when the text agrees with it up to case; the first one in the order of the
  pattern that is also followed by a boundary wins.  The group is the matched text as it
  is spelled in the input.
\<close>

definition word_at :: "char option \<Rightarrow> bool" where
  "word_at c = (case c of None \<Rightarrow> False | Some x \<Rightarrow> is_word x)"

definition word_boundary :: "char option \<Rightarrow> char option \<Rightarrow> bool" where
  "word_boundary a b = (word_at a \<noteq> word_at b)"

definition char_before :: "char option \<Rightarrow> string \<Rightarrow> char option" where
  "char_before prev m = (if m = [] then prev else Some (last m))"

definition char_at :: "string \<Rightarrow> char option" where
  "char_at s = (case s of [] \<Rightarrow> None | c # _ \<Rightarrow> Some c)"

fun keyword_alternatives :: "string list \<Rightarrow> char option \<Rightarrow> string \<Rightarrow> (string \<times> nat) option" where
  "keyword_alternatives [] prev s = None"
| "keyword_alternatives (k # ks) prev s =
     (let n = length k; m = take n s in
        if n \<le> length s \<and> lower m = lower k
           \<and> word_boundary (char_before prev m) (char_at (drop n s))
        then Some (m, n)
        else keyword_alternatives ks prev s)"

definition keyword_pattern :: "string list \<Rightarrow> matcher" where
  "keyword_pattern keywords prev s =
     (if word_boundary prev (char_at s) then keyword_alternatives keywords prev s else None)"

text \<open>
  \<open>list(set(xs))\<close>: every member of \<open>xs\<close> once.  Python leaves the order of a set
  open; the model keeps the order of the last occurrences, and no property below depends
  on the order.
\<close>

definition list_of_set :: "string list \<Rightarrow> string list" where
  "list_of_set xs = remdups xs"

text \<open>The dictionary that the parser returns and that the generator passes on.\<close>

record result =
  code :: string
  explanation :: "string option"
  detected_resources :: "string list"
  format :: string
  raw_response :: string

definition parser_keywords :: "string list" where
  "parser_keywords =
     [''EC2'', ''S3'', ''RDS'', ''Lambda'', ''VPC'', ''ALB'', ''ELB'', ''DynamoDB'', ''SNS'',
      ''SQS'', ''CloudFront'', ''Route53'']"

text \<open>\<open>LLMInterface._parse_architecture_response\<close>.\<close>

definition parse_architecture_response :: "string \<Rightarrow> string \<Rightarrow> result" where
  "parse_architecture_response response output_format =
     (let code_matches = re_findall hinted_fence response;
          code_matches = (if code_matches = [] then re_findall plain_fence response
                          else code_matches);
          code = (case code_matches of [] \<Rightarrow> [] | m # _ \<Rightarrow> strip m);
          detected_resources =
            list_of_set (re_findall (keyword_pattern parser_keywords) response);
          explanation = strip (re_sub_delete any_fence response)
      in \<lparr> code = code, explanation = Some explanation,
           detected_resources = detected_resources, format = output_format,
           raw_response = response \<rparr>)"


text \<open>
  \<open>CodeFormatter.extract_resources_from_code\<close>.  The three patterns are
  \<open>resource\s+"([\w-]+)"\<close>, \<open>data\s+"([\w-]+)"\<close> and
  \<open>Type:\s*["']?(AWS::\w+::\w+)\<close>; none of them is case-insensitive.
\<close>

definition block_type_pattern :: "string \<Rightarrow> matcher" where
  "block_type_pattern keyword prev s =
     (if \<not> prefix keyword s then None
      else case spaces1 (drop (length keyword) s) of
        None \<Rightarrow> None
      | Some r1 \<Rightarrow>
          (case quoted_name r1 of
             None \<Rightarrow> None
           | Some (ty, r2) \<Rightarrow> Some (ty, length s - length r2)))"

definition word1 :: "string \<Rightarrow> (string \<times> string) option" where
  "word1 s = (if takeWhile is_word s = [] then None
              else Some (takeWhile is_word s, dropWhile is_word s))"

definition aws_type_pattern :: matcher where
  "aws_type_pattern prev s =
     (if \<not> prefix ''Type:'' s then None
      else let r1 = dropWhile is_space (drop 5 s);
               r2 = (case r1 of [] \<Rightarrow> r1
                     | q # r \<Rightarrow> if q = CHR 0x22 \<or> q = CHR 0x27 then r else r1)
           in if \<not> prefix ''AWS::'' r2 then None
              else case word1 (drop 5 r2) of
                None \<Rightarrow> None
              | Some (service, r3) \<Rightarrow>
                  if \<not> prefix ''::'' r3 then None
                  else (case word1 (drop 2 r3) of
                          None \<Rightarrow> None
                        | Some (kind, r4) \<Rightarrow>
                            Some (''AWS::'' @ service @ ''::'' @ kind, length s - length r4)))"

definition extract_resources_from_code :: "string \<Rightarrow> string \<Rightarrow> string list" where
  "extract_resources_from_code text format_type =
     (let resources =
            (if lower format_type = ''terraform''
             then re_findall (block_type_pattern ''resource'') text
                  @ map (\<lambda>match. ''data.'' @ match) (re_findall (block_type_pattern ''data'') text)
             else re_findall aws_type_pattern text)
      in list_of_set resources)"

text \<open>
  The keyword list of \<open>IaCGenerator.identify_resources\<close>, in the order of the pattern
  (some names occur twice there).
\<close>

definition identify_keywords :: "string list" where
  "identify_keywords =
     [''EC2'', ''S3'', ''RDS'', ''Lambda'', ''VPC'', ''ALB'', ''ELB'', ''DynamoDB'',
      ''SNS'', ''SQS'', ''CloudFront'', ''Route53'', ''ECS'', ''EKS'', ''API Gateway'',
      ''Kinesis'', ''Redshift'', ''ElastiCache'', ''Neptune'', ''Athena'', ''Glue'',
      ''Step Functions'', ''EventBridge'', ''Cognito'', ''Secrets Manager'',
      ''Systems Manager'', ''CloudWatch'', ''CloudTrail'', ''WAF'', ''Shield'',
      ''GuardDuty'', ''Inspector'', ''Macie'', ''Config'', ''Organizations'',
      ''Control Tower'', ''Service Catalog'', ''AppSync'', ''Amplify'',
      ''Elastic Beanstalk'', ''Fargate'', ''Batch'', ''SageMaker'', ''Comprehend'',
      ''Rekognition'', ''Polly'', ''Transcribe'', ''Translate'', ''Lex'', ''Personalize'',
      ''Forecast'', ''Textract'', ''Kendra'', ''QuickSight'', ''Managed Blockchain'',
      ''Quantum Ledger'', ''Ground Station'', ''RoboMaker'', ''IoT Core'',
      ''IoT Analytics'', ''IoT Events'', ''IoT Things Graph'', ''IoT Device Defender'',
      ''IoT Device Management'', ''IoT 1-Click'', ''IoT Greengrass'', ''Timestream'',
      ''DocumentDB'', ''Keyspaces'', ''QLDB'', ''Managed Apache Cassandra'', ''FSx'',
      ''EFS'', ''Storage Gateway'', ''DataSync'', ''Transfer Family'', ''Backup'',
      ''CloudEndure'', ''Application Discovery'', ''Migration Hub'', ''Server Migration'',
      ''Database Migration'', ''Snow Family'', ''Direct Connect'', ''VPN'',
      ''Transit Gateway'', ''PrivateLink'', ''Global Accelerator'', ''CloudFront'',
      ''Route 53'', ''API Gateway'', ''App Mesh'', ''Cloud Map'', ''X-Ray'',
      ''CloudFormation'', ''CDK'', ''SAM'', ''OpsWorks'', ''Service Catalog'',
      ''Control Tower'', ''Organizations'', ''Resource Access Manager'',
      ''License Manager'', ''Compute Optimizer'', ''Trusted Advisor'',
      ''Well-Architected Tool'', ''Personal Health Dashboard'']"

section \<open>Upload validation (utils/validators.py)\<close>

text \<open>File contents are byte strings: one \<open>char\<close> per byte.\<close>

type_synonym bytes = "char list"

text \<open>
  What the code reads of a decoded image: \<open>image.format\<close>, \<open>image.mode\<close>,
  \<open>image.width\<close> and \<open>image.height\<close> (\<open>image.size\<close> is the pair of the last two).
  The pixels play no part in any decision of the code.
\<close>

record image =
  image_format :: "string option"
  mode :: string
  width :: nat
  height :: nat

text \<open>The metadata dictionary adds the file size in megabytes, a quotient by \<open>2^20\<close>.\<close>

record metadata = image +
  file_size_mb :: rat

text \<open>
  The configuration read from the environment: \<open>int(MAX_IMAGE_SIZE_MB)\<close> and
  \<open>ALLOWED_IMAGE_TYPES.split(",")\<close>.
\<close>

record config =
  max_size_mb :: int
  allowed_types :: "string list"

text \<open>\<open>s.split(sep)\<close> for a separator of one character.\<close>

fun split_on :: "char \<Rightarrow> string \<Rightarrow> string list" where
  "split_on sep [] = [[]]"
| "split_on sep (c # cs) =
     (if c = sep then [] # split_on sep cs
      else (case split_on sep cs of
              [] \<Rightarrow> [[c]]
            | x # xs \<Rightarrow> (c # x) # xs))"

text \<open>\<open>sep.join(xs)\<close>.\<close>

fun join :: "string \<Rightarrow> string list \<Rightarrow> string" where
  "join sep [] = []"
| "join sep [x] = x"
| "join sep (x # y # ys) = x @ sep @ join sep (y # ys)"

text \<open>\<open>s.rfind(c)\<close> for one character: the index of its last occurrence.\<close>

definition rfind_char :: "char \<Rightarrow> string \<Rightarrow> nat option" where
  "rfind_char c s =
     (if c \<in> set s then Some (length s - 1 - length (takeWhile (\<lambda>x. x \<noteq> c) (rev s)))
      else None)"

text \<open>
  \<open>Path(p).name\<close> on a POSIX system: the last component of the path, where empty
  components and \<open>.\<close> are dropped; and \<open>Path(p).suffix\<close>, the part of the name from
  its last dot on when that dot is neither the first nor the last character.
\<close>

definition path_name :: "string \<Rightarrow> string" where
  "path_name p =
     (let parts = filter (\<lambda>c. c \<noteq> [] \<and> c \<noteq> ''.'') (split_on CHR ''/'' p)
      in if parts = [] then [] else last parts)"

definition path_suffix :: "string \<Rightarrow> string" where
  "path_suffix p =
     (let name = path_name p in
        case rfind_char CHR ''.'' name of
          None \<Rightarrow> []
        | Some i \<Rightarrow> if 0 < i \<and> i + 1 < length name then drop i name else [])"

text \<open>\<open>s.strip(".")\<close>.\<close>

definition strip_dots :: "string \<Rightarrow> string" where
  "strip_dots s =
     rev (dropWhile (\<lambda>c. c = CHR ''.'') (rev (dropWhile (\<lambda>c. c = CHR ''.'') s)))"

definition file_ext :: "string \<Rightarrow> string" where
  "file_ext filename = strip_dots (lower (path_suffix filename))"

text \<open>\<open>str(i)\<close> for an integer.\<close>

definition str_int :: "int \<Rightarrow> string" where
  "str_int i = (if i < 0 then ''-'' @ str_nat (nat (- i)) else str_nat (nat i))"

text \<open>
  \<open>f"{file_size_mb:.2f}"\<close>.  The float is \<open>len(file_content) / (1024 * 1024)\<close>, a
  division by a power of two and therefore exact; the format rounds its exact value to
  hundredths, a tie to the even neighbour.
\<close>

definition hundredths :: "nat \<Rightarrow> nat" where
  "hundredths n =
     (let q = (n * 100) div 1048576; r = (n * 100) mod 1048576
      in if 524288 < r \<or> (r = 524288 \<and> odd q) then q + 1 else q)"

definition format_mb :: "nat \<Rightarrow> string" where
  "format_mb n =
     (let h = hundredths n
      in str_nat (h div 100) @ ''.'' @ str_nat (h mod 100 div 10) @ str_nat (h mod 10))"

text \<open>
  \<open>validate_image_file\<close>.  \<open>image_open\<close> stands for
  \<open>Image.open(io.BytesIO(file_content))\<close> of the imaging library: it returns the decoded
  image or raises, and every exception inside the \<open>try\<close> block ends in the last
  message.  The comparison of the size (a float) with the integer ceiling is exact.
\<close>

definition min_dimension :: nat where
  "min_dimension = 100"

definition max_dimension :: nat where
  "max_dimension = 4096"

definition validate_image_file ::
  "config \<Rightarrow> (bytes \<Rightarrow> image option) \<Rightarrow> bytes \<Rightarrow> string
     \<Rightarrow> bool \<times> string option \<times> metadata option" where
  "validate_image_file cfg image_open file_content filename =
     (if int (length file_content) > max_size_mb cfg * 1048576
      then (False, Some (''File size ('' @ format_mb (length file_content)
                         @ ''MB) exceeds maximum ('' @ str_int (max_size_mb cfg) @ ''MB)''), None)
      else if file_ext filename \<notin> set (allowed_types cfg)
      then (False, Some (''File type '' @ [CHR 0x27] @ file_ext filename @ [CHR 0x27]
                         @ '' not allowed. Allowed types: ''
                         @ join '', '' (allowed_types cfg)), None)
      else (case image_open file_content of
              None \<Rightarrow> (False, Some ''Invalid image file or corrupted content'', None)
            | Some img \<Rightarrow>
                if width img < min_dimension \<or> height img < min_dimension
                then (False, Some (''Image too small. Minimum dimension: ''
                                   @ str_nat min_dimension @ ''px''), None)
                else if width img > max_dimension \<or> height img > max_dimension
                then (False, Some (''Image too large. Maximum dimension: ''
                                   @ str_nat max_dimension @ ''px''), None)
                else (True, None,
                      Some \<lparr> image_format = image_format img, mode = mode img,
                             width = width img, height = height img,
                             file_size_mb = of_nat (length file_content) / 1048576 \<rparr>)))"

text \<open>
  \<open>os.path.splitext\<close> on a name without directory part: the extension starts at the
  last dot, unless only dots stand before it.
\<close>

definition splitext :: "string \<Rightarrow> string \<times> string" where
  "splitext p =
     (case rfind_char CHR ''.'' p of
        None \<Rightarrow> (p, [])
      | Some i \<Rightarrow> if list_ex (\<lambda>c. c \<noteq> CHR ''.'') (take i p) then (take i p, drop i p)
                  else (p, []))"

text \<open>\<open>sanitize_filename\<close>: the characters \<open><>:"|?*\<close> become underscores.\<close>

definition invalid_chars :: "char list" where
  "invalid_chars = [CHR ''<'', CHR ''>'', CHR '':'', CHR 0x22, CHR ''|'', CHR ''?'', CHR ''*'']"

text \<open>The slice \<open>s[:n]\<close>; a negative \<open>n\<close> counts from the end.\<close>

definition slice_to :: "int \<Rightarrow> string \<Rightarrow> string" where
  "slice_to n s = (if 0 \<le> n then take (nat n) s else take (nat (int (length s) + n)) s)"

definition sanitize_filename :: "string \<Rightarrow> string" where
  "sanitize_filename filename =
     (let name = map (\<lambda>c. if c \<in> set invalid_chars then CHR ''_'' else c) (path_name filename)
      in if length name > 255
         then (case splitext name of
                 (stem, ext) \<Rightarrow> slice_to (255 - int (length ext)) stem @ ext)
         else name)"

section \<open>The upload route (api/routes.py)\<close>

text \<open>
  The state that the routes act on: the upload directory with its files, the
  preprocessing jobs handed to the background runner, and the trace of what was asked of
  the provider and of the response check.
\<close>

record image_input =
  base64 :: string
  mime_type :: string
  input_metadata :: "image option"

datatype event =
    Probe
  | Generate string "image_input list"
  | Validate string string

record server =
  upload_dir :: bool
  files :: "(string \<times> bytes) list"
  background_tasks :: "(string \<times> string) list"
  trace :: "event list"

definition write_file :: "string \<Rightarrow> bytes \<Rightarrow> (string \<times> bytes) list \<Rightarrow> (string \<times> bytes) list" where
  "write_file path content fs = (path, content) # filter (\<lambda>(p, _). p \<noteq> path) fs"

text \<open>
  The uploaded file: its name and the outcome of \<open>await file.read()\<close>; and the rest of
  the environment of one upload: the configuration, the decoder, the identifier that
  \<open>uuid.uuid4()\<close> draws, and whether writing the file fails.  A verdict without
  message or a valid verdict without metadata does not occur; the response model refuses
  the latter.
\<close>

record upload_file =
  filename :: string
  file_read :: "bytes option"

record upload_env =
  cfg :: config
  image_open :: "bytes \<Rightarrow> image option"
  uuid4 :: string
  write_fails :: bool

record upload_response =
  up_image_id :: string
  up_filename :: string
  up_metadata :: metadata
  up_preview_url :: string

definition upload_image ::
  "upload_env \<Rightarrow> server \<Rightarrow> upload_file \<Rightarrow> (exn + upload_response) \<times> server" where
  "upload_image env st file =
     (case file_read file of
        None \<Rightarrow> (Inl (HTTPException 400 ''Failed to read file''), st)
      | Some content \<Rightarrow>
          (case validate_image_file (cfg env) (image_open env) content (filename file) of
             (is_valid, error_message, md) \<Rightarrow>
               if \<not> is_valid
               then (Inl (HTTPException 400 (case error_message of None \<Rightarrow> [] | Some m \<Rightarrow> m)), st)
               else
                 let image_id = uuid4 env;
                     safe_filename = sanitize_filename (filename file);
                     st1 = st \<lparr> upload_dir := True \<rparr>;
                     file_path = ''uploads/'' @ image_id @ ''_'' @ safe_filename
                 in if write_fails env
                    then (Inl (HTTPException 500 ''Failed to save file''), st1)
                    else
                      let st2 = st1 \<lparr> files := write_file file_path content (files st1),
                                        background_tasks :=
                                          background_tasks st1 @ [(file_path, image_id)] \<rparr>
                      in (case md of
                            None \<Rightarrow> (Inl (HTTPException 500 ''Internal Server Error''), st2)
                          | Some m \<Rightarrow>
                              (Inr \<lparr> up_image_id = image_id, up_filename = safe_filename,
                                     up_metadata = m,
                                     up_preview_url = ''/api/v1/preview/'' @ image_id \<rparr>,
                               st2))))"

section \<open>Prompts (services/prompt_manager.py)\<close>

text \<open>
  \<open>str.upper\<close> on the letters whose capital is again one code point below 256; the
  code applies it to format names only.
\<close>

definition upper_char :: "char \<Rightarrow> char" where
  "upper_char c = (let n = (of_char c :: nat) in
     if (97 \<le> n \<and> n \<le> 122) \<or> (224 \<le> n \<and> n \<le> 254 \<and> n \<noteq> 247) then char_of (n - 32) else c)"

definition upper :: "string \<Rightarrow> string" where
  "upper s = map upper_char s"

text \<open>
  The dictionary \<open>self.templates\<close> has four fixed keys; the prompt texts themselves are
  opaque to the code.
\<close>

record templates =
  terraform_base :: string
  cloudformation_base :: string
  resource_identification :: string
  architecture_explanation :: string

text \<open>\<open>PromptManager.get_architecture_prompt\<close>; an empty context counts as none.\<close>

definition get_architecture_prompt :: "templates \<Rightarrow> string \<Rightarrow> string option \<Rightarrow> exn + string" where
  "get_architecture_prompt tmpl output_format additional_context =
     (let extra = (case additional_context of
                     None \<Rightarrow> []
                   | Some ctx \<Rightarrow> if ctx = [] then []
                                else ''\<newline>\<newline>Additional Requirements:\<newline>'' @ ctx)
      in if lower output_format = ''terraform'' then Inr (terraform_base tmpl @ extra)
         else if lower output_format = ''cloudformation'' then Inr (cloudformation_base tmpl @ extra)
         else Inl (ValueError (''Unsupported output format: '' @ output_format)))"

text \<open>\<open>PromptManager.create_refinement_prompt\<close>.\<close>

definition create_refinement_prompt :: "string \<Rightarrow> string \<Rightarrow> string \<Rightarrow> string" where
  "create_refinement_prompt original_code feedback output_format =
     ''Please refine the following '' @ upper output_format
     @ '' code based on the feedback provided.\<newline>\<newline>Original Code:\<newline>```\<newline>''
     @ original_code
     @ ''\<newline>```\<newline>\<newline>Feedback:\<newline>'' @ feedback
     @ ''\<newline>\<newline>Generate an improved version that addresses the feedback while maintaining all the original functionality.\<newline>Ensure the code remains valid and follows best practices.\<newline>\<newline>Output the refined code within appropriate code blocks.''"

text \<open>What an f-string prints for an optional string.\<close>

definition str_option :: "string option \<Rightarrow> string" where
  "str_option m = (case m of None \<Rightarrow> ''None'' | Some s \<Rightarrow> s)"

section \<open>The generator (services/iac_generator.py)\<close>

text \<open>
  The provider behind \<open>self.llm_client\<close>.  What it answers may depend on everything
  that happened before, so \<open>is_available\<close> and \<open>generate\<close> read the trace.
  \<open>generate\<close> returns the content of the response or raises.
\<close>

record provider =
  provider_name :: string
  is_available :: "event list \<Rightarrow> bool"
  supports_images :: bool
  generate :: "event list \<Rightarrow> string \<Rightarrow> image_input list \<Rightarrow> exn + string"

text \<open>
  The environment of a generation request: the provider, the image preparation
  (\<open>ImageProcessor.prepare_for_llm\<close>, which reads and encodes the file or raises),
  the prompt templates, and \<open>Path.glob\<close> (from the paths in the upload directory and a
  pattern to the matching paths).
\<close>

record gen_env =
  provider :: provider
  prepare_for_llm :: "string \<Rightarrow> exn + image_input"
  prompts :: templates
  glob :: "string list \<Rightarrow> string \<Rightarrow> string list"

definition record_event :: "event \<Rightarrow> server \<Rightarrow> server" where
  "record_event e st = st \<lparr> trace := trace st @ [e] \<rparr>"

text \<open>One call of \<open>self.llm_client.generate\<close>.\<close>

definition llm_generate ::
  "gen_env \<Rightarrow> server \<Rightarrow> string \<Rightarrow> image_input list \<Rightarrow> (exn + string) \<times> server" where
  "llm_generate env st prompt images =
     (generate (provider env) (trace st) prompt images, record_event (Generate prompt images) st)"

text \<open>\<open>LLMInterface.analyze_architecture_diagram\<close>.\<close>

definition analyze_architecture_diagram ::
  "gen_env \<Rightarrow> server \<Rightarrow> string \<Rightarrow> string \<Rightarrow> (exn + result) \<times> server" where
  "analyze_architecture_diagram env st image_path output_format =
     (case prepare_for_llm env image_path of
        Inl e \<Rightarrow> (Inl e, st)
      | Inr image_input \<Rightarrow>
          (case get_architecture_prompt (prompts env) output_format None of
             Inl e \<Rightarrow> (Inl e, st)
           | Inr prompt \<Rightarrow>
               (case llm_generate env st prompt [image_input] of
                  (Inl e, st1) \<Rightarrow> (Inl e, st1)
                | (Inr content, st1) \<Rightarrow>
                    (Inr (parse_architecture_response content output_format), st1))))"

text \<open>\<open>IaCGenerator._refine_output\<close>: a text-only request, parsed like the first.\<close>

definition refine_output ::
  "gen_env \<Rightarrow> server \<Rightarrow> result \<Rightarrow> string option \<Rightarrow> string \<Rightarrow> (exn + result) \<times> server" where
  "refine_output env st initial_result error_message output_format =
     (let refinement_prompt =
            create_refinement_prompt (code initial_result) (str_option error_message)
              output_format
      in case llm_generate env st refinement_prompt [] of
           (Inl e, st1) \<Rightarrow> (Inl e, st1)
         | (Inr content, st1) \<Rightarrow>
             (Inr ((parse_architecture_response content output_format)
                     \<lparr> detected_resources := detected_resources initial_result \<rparr>), st1))"

text \<open>\<open>IaCGenerator._format_terraform_code\<close>: the loop over the lines.\<close>

fun indent_lines :: "nat \<Rightarrow> string list \<Rightarrow> string list" where
  "indent_lines indent_level [] = []"
| "indent_lines indent_level (line # lines) =
     (let stripped = strip line;
          level = (if prefix ''}'' stripped then indent_level - 1 else indent_level);
          formatted = (if stripped \<noteq> [] then concat (replicate level ''  '') @ stripped else [])
      in formatted # indent_lines (if suffix ''{'' stripped then level + 1 else level) lines)"

definition format_terraform_code :: "string \<Rightarrow> string" where
  "format_terraform_code text = join ''\<newline>'' (indent_lines 0 (split_on CHR 0x0A text))"

text \<open>\<open>IaCGenerator._format_cloudformation_code\<close>.\<close>

fun replace_crlf :: "string \<Rightarrow> string" where
  "replace_crlf (c # d # cs) =
     (if c = CHR 0x0D \<and> d = CHR 0x0A then CHR 0x0A # replace_crlf cs
      else c # replace_crlf (d # cs))"
| "replace_crlf cs = cs"

definition format_cloudformation_code :: "string \<Rightarrow> string" where
  "format_cloudformation_code text = strip (replace_crlf text)"

text \<open>\<open>IaCGenerator._post_process_code\<close>.\<close>

definition post_process_code :: "string \<Rightarrow> string \<Rightarrow> string" where
  "post_process_code text output_format =
     (if text = [] then []
      else let stripped = strip text;
               lines = split_on CHR 0x0A stripped;
               body = (if prefix ''```'' stripped \<and> length lines > 2
                       then join ''\<newline>'' (butlast (tl lines)) else stripped)
           in if output_format = ''terraform'' then format_terraform_code body
              else if output_format = ''cloudformation'' then format_cloudformation_code body
              else body)"

text \<open>
  The body of the \<open>try\<close> block of \<open>IaCGenerator.generate_from_image\<close>.  The
  availability probe and the response check are written to the trace as they happen.
\<close>

definition generation_steps ::
  "gen_env \<Rightarrow> server \<Rightarrow> string \<Rightarrow> string \<Rightarrow> bool \<Rightarrow> (exn + result) \<times> server" where
  "generation_steps env st image_path output_format include_explanation =
     (let st1 = record_event Probe st in
        if \<not> is_available (provider env) (trace st)
        then (Inl (ValueError ''LLM service is not available''), st1)
        else if \<not> supports_images (provider env)
        then (Inl (ValueError (provider_name (provider env)
                               @ '' does not support image analysis'')), st1)
        else
          (case analyze_architecture_diagram env st1 image_path output_format of
             (Inl e, st2) \<Rightarrow> (Inl e, st2)
           | (Inr initial, st2) \<Rightarrow>
               let st3 = record_event (Validate (raw_response initial) output_format) st2 in
                 (case validate_llm_response (raw_response initial) output_format of
                    Inl e \<Rightarrow> (Inl e, st3)
                  | Inr (is_valid, error_msg) \<Rightarrow>
                      (case (if \<not> is_valid
                             then refine_output env st3 initial error_msg output_format
                             else (Inr initial, st3)) of
                         (Inl e, st4) \<Rightarrow> (Inl e, st4)
                       | (Inr res, st4) \<Rightarrow>
                           let res1 = (if \<not> include_explanation
                                       then res \<lparr> explanation := None \<rparr> else res)
                           in (Inr (res1 \<lparr> code := post_process_code (code res1)
                                                      output_format \<rparr>), st4)))))"

text \<open>
  \<open>IaCGenerator.generate_from_image\<close>: the two assertions stand before the
  \<open>try\<close>; every exception raised inside it comes out as a \<open>ValueError\<close>.
\<close>

definition path_exists :: "server \<Rightarrow> string \<Rightarrow> bool" where
  "path_exists st path = (path \<in> set (map fst (files st)))"

definition generate_from_image ::
  "gen_env \<Rightarrow> server \<Rightarrow> string \<Rightarrow> string \<Rightarrow> bool \<Rightarrow> (exn + result) \<times> server" where
  "generate_from_image env st image_path output_format include_explanation =
     (if \<not> path_exists st image_path
      then (Inl (AssertionError (''Image file not found: '' @ image_path)), st)
      else if output_format \<notin> set [''terraform'', ''cloudformation'']
      then (Inl (AssertionError (''Invalid format: '' @ output_format)), st)
      else
        (case generation_steps env st image_path output_format include_explanation of
           (Inl e, st') \<Rightarrow>
             (Inl (ValueError (''Failed to generate Infrastructure as Code: '' @ str_exn e)), st')
         | (Inr res, st') \<Rightarrow> (Inr res, st')))"

text \<open>
  \<open>IaCGenerator.identify_resources\<close>: one request with the image (sent without its
  metadata) and the identification prompt; the keywords found in the answer.
\<close>

definition identify_resources ::
  "gen_env \<Rightarrow> server \<Rightarrow> string \<Rightarrow> (exn + string list) \<times> server" where
  "identify_resources env st image_path =
     (case prepare_for_llm env image_path of
        Inl e \<Rightarrow> (Inl e, st)
      | Inr image_data \<Rightarrow>
          (case llm_generate env st (resource_identification (prompts env))
                  [image_data \<lparr> input_metadata := None \<rparr>] of
             (Inl e, st1) \<Rightarrow> (Inl e, st1)
           | (Inr content, st1) \<Rightarrow>
               (Inr (list_of_set (re_findall (keyword_pattern identify_keywords) content)),
                st1)))"

section \<open>The generation route (api/routes.py)\<close>




section \<open>A sample environment\<close>

text \<open>
  A provider that describes the picture in prose when it is sent an image, and answers a
  text-only request with a fenced Terraform block; one uploaded file; \<open>Path.glob\<close>
  for patterns of the form \<open>prefix*\<close>.
\<close>

definition sample_input :: image_input where
  "sample_input = \<lparr> base64 = ''QQ=='', mime_type = ''image/png'', input_metadata = None \<rparr>"

definition sample_provider :: provider where
  "sample_provider =
     \<lparr> provider_name = ''openai'',
       is_available = (\<lambda>t. True),
       supports_images = True,
       generate = (\<lambda>t prompt images.
          if images = []
          then Inr ''```hcl\<newline>resource a {\<newline>x = 1\<newline>}\<newline>```\<newline>Uses RDS''
          else Inr ''I see an S3 bucket'') \<rparr>"

definition sample_env :: gen_env where
  "sample_env =
     \<lparr> provider = sample_provider,
       prepare_for_llm = (\<lambda>path. Inr sample_input),
       prompts = \<lparr> terraform_base = ''TF'', cloudformation_base = ''CF'',
                   resource_identification = ''RI'', architecture_explanation = ''AE'' \<rparr>,
       glob = (\<lambda>paths pattern. filter (\<lambda>p. prefix (''uploads/'' @ butlast pattern) p) paths) \<rparr>"

definition sample_server :: server where
  "sample_server =
     \<lparr> upload_dir = True, files = [(''uploads/id1_d.png'', ''x'')], background_tasks = [],
       trace = [] \<rparr>"

section \<open>Floating-point arithmetic of the image processor\<close>

text \<open>
  A Python \<open>float\<close> is an IEEE 754 double.  A finite double is a rational number, and
  each operation returns the exact result rounded to the nearest double, a tie to the one
  with even significand.  The model keeps the values as rationals and rounds to 53
  significant bits; overflow and the subnormal range are far from the values that the
  processor computes.
\<close>

text \<open>\<open>n.bit_length()\<close>.\<close>

fun bit_length :: "nat \<Rightarrow> nat" where
  "bit_length n = (if n = 0 then 0 else Suc (bit_length (n div 2)))"

declare bit_length.simps [simp del]

text \<open>For \<open>x > 0\<close>, the integer \<open>e\<close> with \<open>2^e \<le> x < 2^(e+1)\<close>.\<close>

definition binary_exponent :: "rat \<Rightarrow> int" where
  "binary_exponent x =
     (if 1 \<le> x then int (bit_length (nat \<lfloor>x\<rfloor>)) - 1
      else - int (bit_length (nat (\<lceil>1 / x\<rceil> - 1))))"

definition round_half_even :: "rat \<Rightarrow> int" where
  "round_half_even x =
     (let f = \<lfloor>x\<rfloor>; d = x - of_int f
      in if d < 1 / 2 then f else if 1 / 2 < d then f + 1 else if even f then f else f + 1)"

definition double_round :: "rat \<Rightarrow> rat" where
  "double_round x =
     (if x = 0 then 0
      else let ulp = 2 powi (binary_exponent \<bar>x\<bar> - 52)
           in sgn x * of_int (round_half_even (\<bar>x\<bar> / ulp)) * ulp)"

section \<open>The image processor (services/image_processor.py)\<close>

text \<open>
  The imaging library works on the pixels, which the model does not hold.  What the model
  keeps of each library call is how it changes the mode and the size, and that it may
  raise: \<open>raises\<close> decides for the name of the call, the image it is applied to and the
  image it would return.  An image made by the library has no file format.  One refusal
  of the library does not depend on the file and is part of the model, see
  \<open>autocontrast\<close> below.
\<close>

record pil =
  open_path :: "string \<Rightarrow> exn + image"
  raises :: "string \<Rightarrow> image \<Rightarrow> image \<Rightarrow> exn option"
  png_bytes :: "image \<Rightarrow> bytes"

definition pil_call :: "pil \<Rightarrow> string \<Rightarrow> image \<Rightarrow> image \<Rightarrow> exn + image" where
  "pil_call lib name img out =
     (case raises lib name img out of Some e \<Rightarrow> Inl e | None \<Rightarrow> Inr out)"

definition convert :: "pil \<Rightarrow> image \<Rightarrow> string \<Rightarrow> exn + image" where
  "convert lib img m = pil_call lib ''convert'' img (img \<lparr> image_format := None, mode := m \<rparr>)"

definition resize :: "pil \<Rightarrow> image \<Rightarrow> nat \<times> nat \<Rightarrow> exn + image" where
  "resize lib img new_size =
     pil_call lib ''resize'' img
       (img \<lparr> image_format := None, width := fst new_size, height := snd new_size \<rparr>)"

definition enhance :: "pil \<Rightarrow> string \<Rightarrow> image \<Rightarrow> exn + image" where
  "enhance lib name img = pil_call lib name img (img \<lparr> image_format := None \<rparr>)"

text \<open>\<open>self.max_dimension\<close> of the processor.\<close>

definition self_max_dimension :: nat where
  "self_max_dimension = 2048"

text \<open>
  \<open>int(a * (self.max_dimension / b))\<close>: the quotient of the two integers is rounded,
  \<open>a\<close> becomes a float, the product is rounded, and \<open>int\<close> cuts off the fraction.
\<close>

definition scaled :: "nat \<Rightarrow> nat \<Rightarrow> nat" where
  "scaled a b =
     nat \<lfloor>double_round (double_round (of_nat a)
                          * double_round (of_nat self_max_dimension / of_nat b))\<rfloor>"

text \<open>\<open>ImageProcessor._resize_image\<close>.\<close>

definition resize_image :: "pil \<Rightarrow> image \<Rightarrow> exn + image" where
  "resize_image lib img =
     (if width img \<le> self_max_dimension \<and> height img \<le> self_max_dimension then Inr img
      else if width img > height img
      then resize lib img (self_max_dimension, scaled (height img) (width img))
      else resize lib img (scaled (width img) (height img), self_max_dimension))"

text \<open>
  \<open>ImageOps.autocontrast(img, cutoff=1)\<close>.  The library computes a lookup table and
  applies it with its helper \<open>_lut\<close>, which serves the modes \<open>L\<close> and \<open>RGB\<close> only: for
  \<open>P\<close> it raises \<open>NotImplementedError\<close>, for every other mode, \<open>RGBA\<close> among them,
  \<open>OSError\<close> with the message below.  The contrast and sharpness enhancers before it
  keep the alpha channel.
\<close>

definition autocontrast :: "pil \<Rightarrow> image \<Rightarrow> exn + image" where
  "autocontrast lib img =
     (if mode img = ''P'' then Inl (OtherException ''mode P support coming soon'')
      else if mode img \<notin> set [''L'', ''RGB'']
      then Inl (OtherException (''not supported for mode '' @ mode img))
      else enhance lib ''autocontrast'' img)"

text \<open>\<open>ImageProcessor._enhance_image\<close>: contrast, sharpness, auto-contrast.\<close>

definition enhance_image :: "pil \<Rightarrow> image \<Rightarrow> exn + image" where
  "enhance_image lib img =
     (case enhance lib ''Contrast'' img of
        Inl e \<Rightarrow> Inl e
      | Inr img1 \<Rightarrow>
          (case enhance lib ''Sharpness'' img1 of
             Inl e \<Rightarrow> Inl e
           | Inr img2 \<Rightarrow> autocontrast lib img2))"

text \<open>
  \<open>ImageProcessor._remove_transparency\<close>: an \<open>RGBA\<close> image is pasted on a new white
  \<open>RGB\<close> image of the same size.
\<close>

definition remove_transparency :: "image \<Rightarrow> image" where
  "remove_transparency img =
     (if mode img \<noteq> ''RGBA'' then img
      else \<lparr> image_format = None, mode = ''RGB'', width = width img, height = height img \<rparr>)"

text \<open>The steps of \<open>preprocess_image\<close> between opening the file and saving the copy.\<close>

definition processed :: "pil \<Rightarrow> image \<Rightarrow> exn + image" where
  "processed lib img =
     (case (if mode img \<notin> set [''RGB'', ''RGBA''] then convert lib img ''RGB'' else Inr img) of
        Inl e \<Rightarrow> Inl e
      | Inr img1 \<Rightarrow>
          (case resize_image lib img1 of
             Inl e \<Rightarrow> Inl e
           | Inr img2 \<Rightarrow>
               (case enhance_image lib img2 of
                  Inl e \<Rightarrow> Inl e
                | Inr img3 \<Rightarrow> Inr (remove_transparency img3))))"

text \<open>\<open>image_path.parent / name\<close>.\<close>

definition sibling_path :: "string \<Rightarrow> string \<Rightarrow> string" where
  "sibling_path path name =
     (let parts = filter (\<lambda>c. c \<noteq> [] \<and> c \<noteq> ''.'') (split_on CHR ''/'' path)
      in (if prefix ''/'' path then ''/'' else []) @ join ''/'' (butlast parts @ [name]))"

text \<open>
  \<open>ImageProcessor.preprocess_image\<close>: every exception is logged and raised again; on
  success the copy is on disk and its path is returned.
\<close>

definition preprocess_image :: "pil \<Rightarrow> server \<Rightarrow> string \<Rightarrow> string \<Rightarrow> (exn + string) \<times> server" where
  "preprocess_image lib st image_path image_id =
     (case open_path lib image_path of
        Inl e \<Rightarrow> (Inl e, st)
      | Inr img \<Rightarrow>
          (case processed lib img of
             Inl e \<Rightarrow> (Inl e, st)
           | Inr out \<Rightarrow>
               let processed_path = sibling_path image_path (image_id @ ''_processed.png'')
               in (case raises lib ''save'' out out of
                     Some e \<Rightarrow> (Inl e, st)
                   | None \<Rightarrow>
                       (Inr processed_path,
                        st \<lparr> files := write_file processed_path (png_bytes lib out)
                                         (files st) \<rparr>))))"

text \<open>
  Two uploads of 2244 by 1122 pixels, a PNG file with an alpha channel (mode \<open>RGBA\<close>)
  and the same picture without one (mode \<open>RGB\<close>), read by a library in which no call
  fails for a reason of its own: what is left is the refusal of \<open>autocontrast\<close>.
\<close>

definition sample_pil :: "string \<Rightarrow> pil" where
  "sample_pil m =
     \<lparr> open_path = (\<lambda>path. Inr \<lparr> image_format = Some ''PNG'', mode = m,
                                     width = 2244, height = 1122 \<rparr>),
       raises = (\<lambda>name img out. None),
       png_bytes = (\<lambda>img. ''PNG'') \<rparr>"

section \<open>Properties of the heuristic validators\<close>

text \<open>
  C6.  Terraform validation passes on the text
  \<open>resource "x" "y" {\n a = 1\n}\<close>, and on the same text with the opening brace removed
  it fails with the reason \<open>Unbalanced braces: 0 open, 1 close\<close>.
\<close>

theorem terraform_validation_examples:
  "validate_terraform_syntax
     (''resource '' @ [CHR 0x22] @ ''x'' @ [CHR 0x22] @ '' '' @ [CHR 0x22] @ ''y'' @ [CHR 0x22]
        @ '' {\<newline> a = 1\<newline>}'') = (True, None)
   \<and> validate_terraform_syntax
     (''resource '' @ [CHR 0x22] @ ''x'' @ [CHR 0x22] @ '' '' @ [CHR 0x22] @ ''y'' @ [CHR 0x22]
        @ '' \<newline> a = 1\<newline>}'') = (False, Some ''Unbalanced braces: 0 open, 1 close'')"
  by code_simp

text \<open>
  C5, as the claim states it, fails: a document may include both required keys and still
  be rejected, because the check also wants the trimmed document to begin with
  \<open>AWSTemplateFormatVersion:\<close>.  Here \<open>Resources\<close> comes first.
\<close>

theorem cloudformation_both_keys_rejected:
  "contains ''AWSTemplateFormatVersion'' ''Resources: {}\<newline>AWSTemplateFormatVersion: 2010-09-09''
   \<and> contains ''Resources'' ''Resources: {}\<newline>AWSTemplateFormatVersion: 2010-09-09''
   \<and> validate_cloudformation_syntax ''Resources: {}\<newline>AWSTemplateFormatVersion: 2010-09-09''
       = (False, Some ''Template must start with AWSTemplateFormatVersion'')"
  by code_simp

text \<open>
  C5, amended.  CloudFormation validation fails with the reason
  \<open>Missing required key: AWSTemplateFormatVersion\<close> on every document in which that key
  does not occur; and it passes exactly on the documents that include both required keys
  and, once trimmed, begin with \<open>AWSTemplateFormatVersion:\<close>.
\<close>

theorem cloudformation_validation:
  "(\<not> contains ''AWSTemplateFormatVersion'' doc \<longrightarrow>
      validate_cloudformation_syntax doc
        = (False, Some ''Missing required key: AWSTemplateFormatVersion''))
   \<and> (validate_cloudformation_syntax doc = (True, None) \<longleftrightarrow>
        contains ''AWSTemplateFormatVersion'' doc \<and> contains ''Resources'' doc
        \<and> prefix ''AWSTemplateFormatVersion:'' (strip doc))"
  by (simp add: validate_cloudformation_syntax_def required_keys_def)

theorem cloudformation_validation_witness:
  "validate_cloudformation_syntax ''Resources: {}''
     = (False, Some ''Missing required key: AWSTemplateFormatVersion'')
   \<and> validate_cloudformation_syntax
       '' AWSTemplateFormatVersion: 2010-09-09\<newline>Resources: {}\<newline>'' = (True, None)"
proof -
  have missing: "\<not> contains ''AWSTemplateFormatVersion'' ''Resources: {}''"
    by code_simp
  have present: "contains ''AWSTemplateFormatVersion''
                   '' AWSTemplateFormatVersion: 2010-09-09\<newline>Resources: {}\<newline>''
                 \<and> contains ''Resources''
                   '' AWSTemplateFormatVersion: 2010-09-09\<newline>Resources: {}\<newline>''
                 \<and> prefix ''AWSTemplateFormatVersion:''
                   (strip '' AWSTemplateFormatVersion: 2010-09-09\<newline>Resources: {}\<newline>'')"
    by code_simp
  from missing present
    cloudformation_validation [of "''Resources: {}''"]
    cloudformation_validation
      [of "'' AWSTemplateFormatVersion: 2010-09-09\<newline>Resources: {}\<newline>''"]
  show ?thesis by blast
qed

text \<open>
  C10.  The validation of the raw response raises \<open>AssertionError\<close> on an empty
  response and on a format other than \<open>terraform\<close> and \<open>cloudformation\<close>, and on
  every other input it returns a verdict pair.
\<close>

theorem validate_llm_response_assertions:
  "(response = [] \<longrightarrow>
      validate_llm_response response expected_format
        = Inl (AssertionError ''Response cannot be empty''))
   \<and> (response \<noteq> [] \<and> expected_format \<notin> {''terraform'', ''cloudformation''} \<longrightarrow>
        validate_llm_response response expected_format
          = Inl (AssertionError (''Invalid format: '' @ expected_format)))
   \<and> (response \<noteq> [] \<and> expected_format \<in> {''terraform'', ''cloudformation''} \<longrightarrow>
        (\<exists>is_valid error_message.
           validate_llm_response response expected_format = Inr (is_valid, error_message)))"
proof (intro conjI impI)
  assume "response = []"
  then show "validate_llm_response response expected_format
               = Inl (AssertionError ''Response cannot be empty'')"
    by (simp add: validate_llm_response_def)
next
  assume "response \<noteq> [] \<and> expected_format \<notin> {''terraform'', ''cloudformation''}"
  then show "validate_llm_response response expected_format
               = Inl (AssertionError (''Invalid format: '' @ expected_format))"
    by (simp add: validate_llm_response_def)
next
  assume "response \<noteq> [] \<and> expected_format \<in> {''terraform'', ''cloudformation''}"
  then have ok: "response \<noteq> []"
    and fmt: "expected_format = ''terraform'' \<or> expected_format = ''cloudformation''"
    by auto
  from fmt show "\<exists>is_valid error_message.
      validate_llm_response response expected_format = Inr (is_valid, error_message)"
  proof
    assume "expected_format = ''terraform''"
    with ok show ?thesis by (auto simp add: validate_llm_response_def)
  next
    assume "expected_format = ''cloudformation''"
    with ok show ?thesis by (auto simp add: validate_llm_response_def)
  qed
qed

theorem validate_llm_response_assertions_witness:
  "validate_llm_response [] ''terraform'' = Inl (AssertionError ''Response cannot be empty'')
   \<and> validate_llm_response ''x'' ''json'' = Inl (AssertionError ''Invalid format: json'')
   \<and> (\<exists>is_valid error_message.
         validate_llm_response ''x'' ''cloudformation'' = Inr (is_valid, error_message))"
  using validate_llm_response_assertions [of "[]" "''terraform''"]
        validate_llm_response_assertions [of "''x''" "''json''"]
        validate_llm_response_assertions [of "''x''" "''cloudformation''"]
  by simp

section \<open>Evaluating the character classes on concrete text\<close>

lemma char_eq_char_of: "(c = char_of (n::nat)) = (take_bit 8 n = of_char c)"
  using char_of_eq_iff [of n c] by (auto simp del: char_of_eq_iff)

lemmas char_eval =
  char_of_eq_iff char_eq_char_of lower_def lower_char_def is_word_def is_space_def
  is_name_char_def Let_def


lemmas keyword_eval =
  re_findall_def keyword_pattern_def word_boundary_def word_at_def char_at_def
  char_before_def

section \<open>Properties of the response parser\<close>



















subsection \<open>Detected resources\<close>

lemma keyword_alternatives_sound:
  "keyword_alternatives ks prev s = Some (m, n) \<Longrightarrow> \<exists>k \<in> set ks. lower m = lower k"
  by (induction ks) (auto simp: Let_def split: if_splits)

lemma keyword_pattern_sound:
  "keyword_pattern ks prev s = Some (m, n) \<Longrightarrow> lower m \<in> lower ` set ks"
  unfolding keyword_pattern_def
  by (auto split: if_splits dest: keyword_alternatives_sound)

lemma findall_from_keywords:
  "x \<in> set (findall_from (keyword_pattern ks) k p s) \<Longrightarrow> lower x \<in> lower ` set ks"
proof (induction s arbitrary: k p)
  case Nil
  then show ?case by simp
next
  case (Cons c cs)
  show ?case
  proof (cases k)
    case (Suc j)
    with Cons show ?thesis by simp
  next
    case 0
    show ?thesis
    proof (cases "keyword_pattern ks p (c # cs)")
      case None
      with 0 Cons show ?thesis by simp
    next
      case (Some gn)
      obtain g n where gn: "gn = (g, n)" by (cases gn)
      with Some 0 Cons.prems
      have "x = g \<or> x \<in> set (findall_from (keyword_pattern ks) (n - 1) (Some c) cs)"
        by simp
      then show ?thesis
      proof
        assume "x = g"
        with Some gn show ?thesis by (simp add: keyword_pattern_sound)
      next
        assume "x \<in> set (findall_from (keyword_pattern ks) (n - 1) (Some c) cs)"
        then show ?thesis by (rule Cons.IH)
      qed
    qed
  qed
qed

text \<open>
  C8, read as "no two members match each other up to case", fails: the members are the
  matched pieces of text as the input spells them, and the set compares them exactly.
  Read as "the matching that finds the members ignores case", it fails for the extraction
  from code, whose patterns carry no flag: \<open>RESOURCE "aws_s3"\<close> yields nothing where
  \<open>resource "aws_s3"\<close> yields \<open>aws_s3\<close>.
\<close>

theorem detected_resources_case_variants:
  "set (detected_resources (parse_architecture_response ''EC2 and ec2'' ''terraform''))
     = {''EC2'', ''ec2''}
   \<and> \<not> distinct (map lower
         (detected_resources (parse_architecture_response ''EC2 and ec2'' ''terraform'')))
   \<and> extract_resources_from_code (''RESOURCE '' @ [CHR 0x22] @ ''aws_s3'' @ [CHR 0x22])
         ''terraform'' = []
   \<and> extract_resources_from_code (''resource '' @ [CHR 0x22] @ ''aws_s3'' @ [CHR 0x22])
         ''terraform'' = [''aws_s3'']"
proof -
  have found: "re_findall (keyword_pattern parser_keywords) ''EC2 and ec2''
                 = [''EC2'', ''ec2'']"
    by (simp add: keyword_eval parser_keywords_def char_eval)
  have same: "lower ''EC2'' = lower ''ec2''"
    by (simp add: char_eval)
  have parsed:
    "set (detected_resources (parse_architecture_response ''EC2 and ec2'' ''terraform''))
       = {''EC2'', ''ec2''}
     \<and> \<not> distinct (map lower
           (detected_resources (parse_architecture_response ''EC2 and ec2'' ''terraform'')))"
    by (simp add: parse_architecture_response_def Let_def found list_of_set_def same)
  have capitals:
    "extract_resources_from_code (''RESOURCE '' @ [CHR 0x22] @ ''aws_s3'' @ [CHR 0x22])
       ''terraform'' = []"
    by (simp add: extract_resources_from_code_def re_findall_def block_type_pattern_def
          list_of_set_def char_eval)
  have small:
    "extract_resources_from_code (''resource '' @ [CHR 0x22] @ ''aws_s3'' @ [CHR 0x22])
       ''terraform'' = [''aws_s3'']"
    by (simp add: extract_resources_from_code_def re_findall_def block_type_pattern_def
          list_of_set_def spaces1_def quoted_name_def char_eval)
  from parsed capitals small show ?thesis
    by blast
qed

text \<open>
  C8, amended.  The resource lists of the response parser, of the extraction from code
  and of the resource identification contain no string twice (the comparison is exact).
  In the parser and in the identification every member agrees up to case with a keyword
  of the list, so one keyword may be present in several spellings; the extraction from
  code matches case-sensitively.
\<close>

theorem detected_resources_distinct:
  "distinct (detected_resources (parse_architecture_response response output_format))
   \<and> distinct (extract_resources_from_code text format_type)
   \<and> (\<forall>x \<in> set (detected_resources (parse_architecture_response response output_format)).
         lower x \<in> lower ` set parser_keywords)
   \<and> (\<forall>resources st'.
         identify_resources env st image_path = (Inr resources, st') \<longrightarrow>
           distinct resources
           \<and> (\<forall>x \<in> set resources. lower x \<in> lower ` set identify_keywords))"
proof -
  have "distinct resources \<and> (\<forall>x \<in> set resources. lower x \<in> lower ` set identify_keywords)"
    if "identify_resources env st image_path = (Inr resources, st')" for resources st'
  proof -
    from that obtain content where
      "resources = list_of_set (re_findall (keyword_pattern identify_keywords) content)"
      by (auto simp: identify_resources_def split: sum.splits prod.splits)
    then show ?thesis
      by (auto simp: list_of_set_def re_findall_def dest: findall_from_keywords)
  qed
  then show ?thesis
    by (auto simp: parse_architecture_response_def extract_resources_from_code_def
          list_of_set_def re_findall_def Let_def
        dest: findall_from_keywords)
qed

theorem detected_resources_distinct_witness:
  "distinct (detected_resources (parse_architecture_response ''EC2 and ec2'' ''terraform''))
   \<and> distinct (extract_resources_from_code ''Type: AWS::S3::Bucket'' ''cloudformation'')
   \<and> ''ec2'' \<in> set (detected_resources (parse_architecture_response ''EC2 and ec2'' ''terraform''))
   \<and> lower ''ec2'' \<in> lower ` set parser_keywords
   \<and> identify_resources
         (sample_env \<lparr> provider := sample_provider \<lparr> generate := (\<lambda>t p i. Inr ''s3'') \<rparr> \<rparr>)
         sample_server ''uploads/id1_d.png''
       = (Inr [''s3''],
          sample_server \<lparr> trace := [Generate ''RI'' [sample_input]] \<rparr>)
   \<and> distinct [''s3'']
   \<and> lower ''s3'' \<in> lower ` set identify_keywords"
proof -
  have found: "re_findall (keyword_pattern parser_keywords) ''EC2 and ec2''
                 = [''EC2'', ''ec2'']"
    by (simp add: keyword_eval parser_keywords_def char_eval)
  then have parsed: "''ec2'' \<in> set (detected_resources
                       (parse_architecture_response ''EC2 and ec2'' ''terraform''))"
    by (simp add: parse_architecture_response_def Let_def list_of_set_def)
  have "re_findall (keyword_pattern identify_keywords) ''s3'' = [''s3'']"
    by (simp add: keyword_eval identify_keywords_def char_eval)
  then have identified:
    "identify_resources
       (sample_env \<lparr> provider := sample_provider \<lparr> generate := (\<lambda>t p i. Inr ''s3'') \<rparr> \<rparr>)
       sample_server ''uploads/id1_d.png''
     = (Inr [''s3''], sample_server \<lparr> trace := [Generate ''RI'' [sample_input]] \<rparr>)"
    by (simp add: identify_resources_def llm_generate_def record_event_def sample_env_def
          sample_server_def sample_input_def list_of_set_def)
  from parsed identified
    detected_resources_distinct
      [of "''EC2 and ec2''" "''terraform''" "''Type: AWS::S3::Bucket''" "''cloudformation''"
          "sample_env \<lparr> provider := sample_provider \<lparr> generate := (\<lambda>t p i. Inr ''s3'') \<rparr> \<rparr>"
          sample_server "''uploads/id1_d.png''"]
  show ?thesis by (simp del: distinct.simps)
qed

section \<open>Properties of the upload route\<close>

lemma str_nat_dimensions:
  "str_nat 100 = ''100''" "str_nat 4096 = ''4096''"
  by (simp_all add: str_nat.simps char_eval)

lemma upload_image_invalid:
  assumes "file_read file = Some content"
    and "validate_image_file (cfg env) (image_open env) content (filename file)
           = (False, Some reason, md)"
  shows "upload_image env st file = (Inl (HTTPException 400 reason), st)"
  using assms by (simp add: upload_image_def)

text \<open>
  C4.  When the uploaded file is larger than the configured ceiling, or its extension is
  not in the allow-list, or it decodes to an image with a side below 100 or above 4096
  pixels, the upload fails with status 400 and one of the four reasons of the validation,
  and the state of the server (the upload directory, its files, the scheduled jobs) is
  the one before the request.
\<close>

theorem upload_rejects_violations:
  assumes read: "file_read file = Some content"
    and violation:
      "int (length content) > max_size_mb (cfg env) * 1048576
       \<or> file_ext (filename file) \<notin> set (allowed_types (cfg env))
       \<or> (\<exists>img. image_open env content = Some img
              \<and> (width img < 100 \<or> height img < 100 \<or> width img > 4096 \<or> height img > 4096))"
  shows "\<exists>reason.
           upload_image env st file = (Inl (HTTPException 400 reason), st)
           \<and> reason \<in>
               {''File size ('' @ format_mb (length content) @ ''MB) exceeds maximum (''
                  @ str_int (max_size_mb (cfg env)) @ ''MB)'',
                ''File type '' @ [CHR 0x27] @ file_ext (filename file) @ [CHR 0x27]
                  @ '' not allowed. Allowed types: '' @ join '', '' (allowed_types (cfg env)),
                ''Image too small. Minimum dimension: 100px'',
                ''Image too large. Maximum dimension: 4096px''}"
proof -
  let ?v = "validate_image_file (cfg env) (image_open env) content (filename file)"
  consider
      (size) "int (length content) > max_size_mb (cfg env) * 1048576"
    | (ext) "\<not> int (length content) > max_size_mb (cfg env) * 1048576"
        "file_ext (filename file) \<notin> set (allowed_types (cfg env))"
    | (dim) img where "\<not> int (length content) > max_size_mb (cfg env) * 1048576"
        "file_ext (filename file) \<in> set (allowed_types (cfg env))"
        "image_open env content = Some img"
        "width img < 100 \<or> height img < 100 \<or> width img > 4096 \<or> height img > 4096"
    using violation by blast
  then show ?thesis
  proof cases
    case size
    then have "?v = (False,
        Some (''File size ('' @ format_mb (length content) @ ''MB) exceeds maximum (''
              @ str_int (max_size_mb (cfg env)) @ ''MB)''), None)"
      by (simp add: validate_image_file_def)
    from upload_image_invalid [OF read this] show ?thesis
      by blast
  next
    case ext
    then have "?v = (False,
        Some (''File type '' @ [CHR 0x27] @ file_ext (filename file) @ [CHR 0x27]
              @ '' not allowed. Allowed types: '' @ join '', '' (allowed_types (cfg env))),
        None)"
      by (simp add: validate_image_file_def)
    from upload_image_invalid [OF read this] show ?thesis
      by blast
  next
    case dim
    show ?thesis
    proof (cases "width img < 100 \<or> height img < 100")
      case True
      with dim have "?v = (False, Some ''Image too small. Minimum dimension: 100px'', None)"
        by (simp add: validate_image_file_def str_nat_dimensions min_dimension_def)
      from upload_image_invalid [OF read this] show ?thesis
        by blast
    next
      case False
      with dim have "?v = (False, Some ''Image too large. Maximum dimension: 4096px'', None)"
        by (simp add: validate_image_file_def str_nat_dimensions min_dimension_def
              max_dimension_def)
      from upload_image_invalid [OF read this] show ?thesis
        by blast
    qed
  qed
qed

theorem upload_rejects_violations_witness:
  "(\<exists>reason.
      upload_image
        \<lparr> cfg = \<lparr> max_size_mb = 0, allowed_types = [''png'', ''jpg''] \<rparr>,
          image_open = (\<lambda>b. None), uuid4 = ''id'', write_fails = False \<rparr>
        \<lparr> upload_dir = True, files = [(''uploads/a_b.png'', ''x'')], background_tasks = [],
          trace = [] \<rparr>
        \<lparr> filename = ''diagram.png'', file_read = Some ''0123456789'' \<rparr>
      = (Inl (HTTPException 400 reason),
         \<lparr> upload_dir = True, files = [(''uploads/a_b.png'', ''x'')], background_tasks = [],
           trace = [] \<rparr>))
   \<and> (\<exists>reason.
      upload_image
        \<lparr> cfg = \<lparr> max_size_mb = 10, allowed_types = [''png'', ''jpg''] \<rparr>,
          image_open = (\<lambda>b. None), uuid4 = ''id'', write_fails = False \<rparr>
        \<lparr> upload_dir = False, files = [], background_tasks = [], trace = [] \<rparr>
        \<lparr> filename = ''diagram.gif'', file_read = Some ''0123456789'' \<rparr>
      = (Inl (HTTPException 400 reason),
         \<lparr> upload_dir = False, files = [], background_tasks = [], trace = [] \<rparr>))
   \<and> (\<exists>reason.
      upload_image
        \<lparr> cfg = \<lparr> max_size_mb = 10, allowed_types = [''png'', ''jpg''] \<rparr>,
          image_open = (\<lambda>b. Some \<lparr> image_format = Some ''PNG'', mode = ''RGB'',
                                   width = 5000, height = 400 \<rparr>),
          uuid4 = ''id'', write_fails = False \<rparr>
        \<lparr> upload_dir = False, files = [], background_tasks = [], trace = [] \<rparr>
        \<lparr> filename = ''diagram.png'', file_read = Some ''0123456789'' \<rparr>
      = (Inl (HTTPException 400 reason),
         \<lparr> upload_dir = False, files = [], background_tasks = [], trace = [] \<rparr>))"
proof -
  have gif: "file_ext ''diagram.gif'' = ''gif''"
    by (simp add: file_ext_def strip_dots_def path_suffix_def path_name_def rfind_char_def
          char_eval)
  have a: "\<exists>reason. upload_image
        \<lparr> cfg = \<lparr> max_size_mb = 0, allowed_types = [''png'', ''jpg''] \<rparr>,
          image_open = (\<lambda>b. None), uuid4 = ''id'', write_fails = False \<rparr>
        \<lparr> upload_dir = True, files = [(''uploads/a_b.png'', ''x'')], background_tasks = [],
          trace = [] \<rparr>
        \<lparr> filename = ''diagram.png'', file_read = Some ''0123456789'' \<rparr>
      = (Inl (HTTPException 400 reason),
         \<lparr> upload_dir = True, files = [(''uploads/a_b.png'', ''x'')], background_tasks = [],
           trace = [] \<rparr>)"
    using upload_rejects_violations
      [of "\<lparr> filename = ''diagram.png'', file_read = Some ''0123456789'' \<rparr>"
          "''0123456789''"
          "\<lparr> cfg = \<lparr> max_size_mb = 0, allowed_types = [''png'', ''jpg''] \<rparr>,
             image_open = (\<lambda>b. None), uuid4 = ''id'', write_fails = False \<rparr>"]
    by simp blast
  have b: "\<exists>reason. upload_image
        \<lparr> cfg = \<lparr> max_size_mb = 10, allowed_types = [''png'', ''jpg''] \<rparr>,
          image_open = (\<lambda>b. None), uuid4 = ''id'', write_fails = False \<rparr>
        \<lparr> upload_dir = False, files = [], background_tasks = [], trace = [] \<rparr>
        \<lparr> filename = ''diagram.gif'', file_read = Some ''0123456789'' \<rparr>
      = (Inl (HTTPException 400 reason),
         \<lparr> upload_dir = False, files = [], background_tasks = [], trace = [] \<rparr>)"
    using upload_rejects_violations
      [of "\<lparr> filename = ''diagram.gif'', file_read = Some ''0123456789'' \<rparr>"
          "''0123456789''"
          "\<lparr> cfg = \<lparr> max_size_mb = 10, allowed_types = [''png'', ''jpg''] \<rparr>,
             image_open = (\<lambda>b. None), uuid4 = ''id'', write_fails = False \<rparr>"]
    by (simp add: gif) blast
  have c: "\<exists>reason. upload_image
        \<lparr> cfg = \<lparr> max_size_mb = 10, allowed_types = [''png'', ''jpg''] \<rparr>,
          image_open = (\<lambda>b. Some \<lparr> image_format = Some ''PNG'', mode = ''RGB'',
                                   width = 5000, height = 400 \<rparr>),
          uuid4 = ''id'', write_fails = False \<rparr>
        \<lparr> upload_dir = False, files = [], background_tasks = [], trace = [] \<rparr>
        \<lparr> filename = ''diagram.png'', file_read = Some ''0123456789'' \<rparr>
      = (Inl (HTTPException 400 reason),
         \<lparr> upload_dir = False, files = [], background_tasks = [], trace = [] \<rparr>)"
    using upload_rejects_violations
      [of "\<lparr> filename = ''diagram.png'', file_read = Some ''0123456789'' \<rparr>"
          "''0123456789''"
          "\<lparr> cfg = \<lparr> max_size_mb = 10, allowed_types = [''png'', ''jpg''] \<rparr>,
             image_open = (\<lambda>b. Some \<lparr> image_format = Some ''PNG'', mode = ''RGB'',
                                      width = 5000, height = 400 \<rparr>),
             uuid4 = ''id'', write_fails = False \<rparr>"]
    by simp blast
  from a b c show ?thesis by blast
qed

section \<open>Properties of the generation pipeline\<close>

lemma validate_llm_response_verdict:
  assumes "validate_llm_response response expected_format = Inr verdict"
  shows "expected_format \<in> set [''terraform'', ''cloudformation'']" and "response \<noteq> []"
proof -
  show "response \<noteq> []"
    using assms by (auto simp: validate_llm_response_def)
  then show "expected_format \<in> set [''terraform'', ''cloudformation'']"
    using assms by (auto simp: validate_llm_response_def split: if_splits)
qed

lemma parse_fields:
  "format (parse_architecture_response response output_format) = output_format"
  "raw_response (parse_architecture_response response output_format) = response"
  by (simp_all add: parse_architecture_response_def Let_def)

lemma record_event_trace:
  "record_event e (st \<lparr> trace := t \<rparr>) = st \<lparr> trace := t @ [e] \<rparr>"
  by (simp add: record_event_def)

text \<open>
  A run whose first response is rejected by the response check: what
  \<open>generate_from_image\<close> returns and the trace it leaves, for either outcome of the
  refinement request.
\<close>

lemma rejected_run:
  assumes stored: "path_exists st image_path"
    and available: "is_available (provider env) (trace st)"
    and vision: "supports_images (provider env)"
    and prepared: "prepare_for_llm env image_path = Inr image_input"
    and prompt: "get_architecture_prompt (prompts env) output_format None = Inr prompt"
    and first: "generate (provider env) (trace st @ [Probe]) prompt [image_input] = Inr content"
    and rejected: "validate_llm_response content output_format = Inr (False, error_msg)"
    and refinement_prompt: "refinement_prompt =
           create_refinement_prompt (code (parse_architecture_response content output_format))
             (str_option error_msg) output_format"
    and second: "generate (provider env)
             (trace st @ [Probe, Generate prompt [image_input], Validate content output_format])
             refinement_prompt [] = refined"
  shows "generate_from_image env st image_path output_format include_explanation =
           ((case refined of
               Inl e \<Rightarrow>
                 Inl (ValueError (''Failed to generate Infrastructure as Code: '' @ str_exn e))
             | Inr refined_content \<Rightarrow>
                 Inr \<lparr> code = post_process_code
                               (code (parse_architecture_response refined_content output_format))
                               output_format,
                       explanation =
                         (if include_explanation
                          then explanation
                                 (parse_architecture_response refined_content output_format)
                          else None),
                       detected_resources =
                         detected_resources (parse_architecture_response content output_format),
                       format = output_format,
                       raw_response = refined_content \<rparr>),
            st \<lparr> trace := trace st @ [Probe, Generate prompt [image_input],
                                       Validate content output_format,
                                       Generate refinement_prompt []] \<rparr>)"
proof -
  let ?initial = "parse_architecture_response content output_format"
  let ?final = "st \<lparr> trace := trace st @ [Probe, Generate prompt [image_input],
                                          Validate content output_format,
                                          Generate refinement_prompt []] \<rparr>"
  have fmt: "output_format \<in> set [''terraform'', ''cloudformation'']"
    using validate_llm_response_verdict(1) [OF rejected] .
  have analysed:
    "analyze_architecture_diagram env (record_event Probe st) image_path output_format
       = (Inr ?initial, st \<lparr> trace := trace st @ [Probe, Generate prompt [image_input]] \<rparr>)"
    using prepared prompt first
    by (simp add: analyze_architecture_diagram_def llm_generate_def record_event_def)
  have refine:
    "refine_output env
        (st \<lparr> trace := trace st @ [Probe, Generate prompt [image_input],
                                   Validate content output_format] \<rparr>)
        ?initial error_msg output_format
       = ((case refined of
             Inl e \<Rightarrow> Inl e
           | Inr refined_content \<Rightarrow>
               Inr ((parse_architecture_response refined_content output_format)
                      \<lparr> detected_resources := detected_resources ?initial \<rparr>)),
          ?final)"
    using second refinement_prompt
    by (cases refined)
       (simp_all add: refine_output_def llm_generate_def record_event_def Let_def)
  have steps:
    "generation_steps env st image_path output_format include_explanation
       = ((case refined of
             Inl e \<Rightarrow> Inl e
           | Inr refined_content \<Rightarrow>
               Inr \<lparr> code = post_process_code
                               (code (parse_architecture_response refined_content output_format))
                               output_format,
                       explanation =
                         (if include_explanation
                          then explanation
                                 (parse_architecture_response refined_content output_format)
                          else None),
                       detected_resources = detected_resources ?initial,
                       format = output_format,
                       raw_response = refined_content \<rparr>),
          ?final)"
  proof (cases refined)
    case (Inl e)
    with available vision rejected show ?thesis
      by (simp add: generation_steps_def Let_def analysed parse_fields record_event_trace
            refine)
  next
    case (Inr refined_content)
    obtain c e d f r where parsed:
      "parse_architecture_response refined_content output_format
         = \<lparr> code = c, explanation = e, detected_resources = d, format = f,
             raw_response = r \<rparr>"
      by (cases "parse_architecture_response refined_content output_format")
    from parse_fields [of refined_content output_format] parsed
    have "f = output_format" and "r = refined_content"
      by simp_all
    with Inr available vision rejected parsed show ?thesis
      by (simp add: generation_steps_def Let_def analysed parse_fields record_event_trace
            refine)
  qed
  show ?thesis
    using stored fmt
    by (cases refined) (simp_all add: generate_from_image_def steps)
qed

text \<open>
  C2.  When the response check rejects the first response, the run asks the provider
  exactly once more: whatever the provider answers, the trace of the run is the
  availability probe, the first request, the one response check, and the refinement
  request, in this order and with nothing behind.  When the provider answers the
  refinement request, the run returns a result built from that answer, which no check
  has seen.
\<close>

theorem one_refinement_request:
  assumes "path_exists st image_path"
    and "is_available (provider env) (trace st)"
    and "supports_images (provider env)"
    and "prepare_for_llm env image_path = Inr image_input"
    and "get_architecture_prompt (prompts env) output_format None = Inr prompt"
    and "generate (provider env) (trace st @ [Probe]) prompt [image_input] = Inr content"
    and "validate_llm_response content output_format = Inr (False, error_msg)"
    and "refinement_prompt =
           create_refinement_prompt (code (parse_architecture_response content output_format))
             (str_option error_msg) output_format"
    and "generate (provider env)
           (trace st @ [Probe, Generate prompt [image_input], Validate content output_format])
           refinement_prompt [] = refined"
  shows "trace (snd (generate_from_image env st image_path output_format include_explanation))
           = trace st @ [Probe, Generate prompt [image_input], Validate content output_format,
                         Generate refinement_prompt []]
         \<and> (\<forall>refined_content. refined = Inr refined_content \<longrightarrow>
               (\<exists>res. fst (generate_from_image env st image_path output_format
                              include_explanation) = Inr res
                      \<and> raw_response res = refined_content
                      \<and> format res = output_format))"
  by (simp add: rejected_run [OF assms])

text \<open>
  C9.  In a run that goes through the refinement step and returns, the resources of the
  result are those found in the first response; the code is the post-processed code of
  the refined response, and the explanation is the explanation of the refined response
  (or absent when the caller did not ask for one).
\<close>

theorem refinement_keeps_initial_resources:
  assumes "path_exists st image_path"
    and "is_available (provider env) (trace st)"
    and "supports_images (provider env)"
    and "prepare_for_llm env image_path = Inr image_input"
    and "get_architecture_prompt (prompts env) output_format None = Inr prompt"
    and "generate (provider env) (trace st @ [Probe]) prompt [image_input] = Inr content"
    and "validate_llm_response content output_format = Inr (False, error_msg)"
    and "refinement_prompt =
           create_refinement_prompt (code (parse_architecture_response content output_format))
             (str_option error_msg) output_format"
    and "generate (provider env)
           (trace st @ [Probe, Generate prompt [image_input], Validate content output_format])
           refinement_prompt [] = Inr refined_content"
  shows "\<exists>res. fst (generate_from_image env st image_path output_format include_explanation)
                 = Inr res
           \<and> detected_resources res
               = detected_resources (parse_architecture_response content output_format)
           \<and> code res
               = post_process_code
                   (code (parse_architecture_response refined_content output_format))
                   output_format
           \<and> explanation res
               = (if include_explanation
                  then explanation (parse_architecture_response refined_content output_format)
                  else None)"
  by (simp add: rejected_run [OF assms])

lemma sample_run_facts:
  shows "path_exists sample_server ''uploads/id1_d.png''"
    and "is_available (provider sample_env) (trace sample_server)"
    and "supports_images (provider sample_env)"
    and "prepare_for_llm sample_env ''uploads/id1_d.png'' = Inr sample_input"
    and "get_architecture_prompt (prompts sample_env) ''terraform'' None = Inr ''TF''"
    and "generate (provider sample_env) (trace sample_server @ [Probe]) ''TF'' [sample_input]
           = Inr ''I see an S3 bucket''"
    and "validate_llm_response ''I see an S3 bucket'' ''terraform''
           = Inr (False, Some ''Response does not contain code blocks'')"
    and "generate (provider sample_env)
           (trace sample_server @ [Probe, Generate ''TF'' [sample_input],
                                   Validate ''I see an S3 bucket'' ''terraform''])
           (create_refinement_prompt
              (code (parse_architecture_response ''I see an S3 bucket'' ''terraform''))
              (str_option (Some ''Response does not contain code blocks'')) ''terraform'') []
           = Inr ''```hcl\<newline>resource a {\<newline>x = 1\<newline>}\<newline>```\<newline>Uses RDS''"
  by (simp_all add: path_exists_def sample_server_def sample_env_def sample_provider_def
        get_architecture_prompt_def validate_llm_response_def char_eval)

theorem one_refinement_request_witness:
  "trace (snd (generate_from_image sample_env sample_server ''uploads/id1_d.png''
                 ''terraform'' True))
     = [Probe, Generate ''TF'' [sample_input], Validate ''I see an S3 bucket'' ''terraform'',
        Generate (create_refinement_prompt
                    (code (parse_architecture_response ''I see an S3 bucket'' ''terraform''))
                    ''Response does not contain code blocks'' ''terraform'') []]
   \<and> (\<exists>res. fst (generate_from_image sample_env sample_server ''uploads/id1_d.png''
                    ''terraform'' True) = Inr res
            \<and> raw_response res
                = ''```hcl\<newline>resource a {\<newline>x = 1\<newline>}\<newline>```\<newline>Uses RDS''
            \<and> format res = ''terraform'')"
  using one_refinement_request [OF sample_run_facts(1-7) refl sample_run_facts(8), of True]
  by (simp add: str_option_def sample_server_def)

theorem refinement_keeps_initial_resources_witness:
  "\<exists>res. fst (generate_from_image sample_env sample_server ''uploads/id1_d.png''
                ''terraform'' True) = Inr res
     \<and> detected_resources res
         = detected_resources (parse_architecture_response ''I see an S3 bucket'' ''terraform'')
     \<and> code res
         = post_process_code
             (code (parse_architecture_response
                      ''```hcl\<newline>resource a {\<newline>x = 1\<newline>}\<newline>```\<newline>Uses RDS'' ''terraform''))
             ''terraform''
     \<and> explanation res
         = explanation (parse_architecture_response
                          ''```hcl\<newline>resource a {\<newline>x = 1\<newline>}\<newline>```\<newline>Uses RDS'' ''terraform'')"
  using refinement_keeps_initial_resources
          [OF sample_run_facts(1-7) refl sample_run_facts(8), of True]
  by simp



section \<open>Properties of the image processor\<close>

subsection \<open>Rounding to a double\<close>

lemma bit_length_bounds:
  "0 < n \<Longrightarrow> 2 ^ (bit_length n - 1) \<le> n \<and> n < 2 ^ bit_length n"
proof (induction n rule: bit_length.induct)
  case (1 n)
  show ?case
  proof (cases "n div 2 = 0")
    case True
    with "1.prems" have "n = 1" by (simp add: div_eq_0_iff) 
    then show ?thesis by (simp add: bit_length.simps)
  next
    case False
    then have pos: "0 < n div 2" by simp
    from "1.IH" [OF _ pos] "1.prems"
    have ih: "2 ^ (bit_length (n div 2) - 1) \<le> n div 2" "n div 2 < 2 ^ bit_length (n div 2)"
      by simp_all
    have bl: "bit_length n = Suc (bit_length (n div 2))"
      using "1.prems" by (subst bit_length.simps) simp
    have "0 < bit_length (n div 2)"
      using pos by (subst bit_length.simps) simp
    then obtain k where k: "bit_length (n div 2) = Suc k"
      by (cases "bit_length (n div 2)") simp_all
    from ih k have "2 * 2 ^ k \<le> 2 * (n div 2)" by simp
    also have "\<dots> \<le> n" by simp
    finally have lower: "2 ^ (bit_length n - 1) \<le> n" using bl k by simp
    from ih(2) have "n div 2 + 1 \<le> 2 ^ bit_length (n div 2)" by simp
    then have "2 * (n div 2) + 2 \<le> 2 * 2 ^ bit_length (n div 2)" by simp
    moreover have "n < 2 * (n div 2) + 2" by presburger
    ultimately have "n < 2 ^ bit_length n" using bl by simp
    with lower show ?thesis by simp
  qed
qed

lemma binary_exponent_bounds:
  assumes "0 < x"
  shows "2 powi binary_exponent x \<le> x" and "x < 2 powi (binary_exponent x + 1)"
proof -
  show "2 powi binary_exponent x \<le> x"
  proof (cases "1 \<le> x")
    case True
    let ?n = "nat \<lfloor>x\<rfloor>"
    from True have n: "0 < ?n" by simp
    from bit_length_bounds [OF n] have "2 ^ (bit_length ?n - 1) \<le> ?n" by simp
    then have "(2::rat) ^ (bit_length ?n - 1) \<le> of_nat ?n"
      by (metis of_nat_le_iff of_nat_numeral of_nat_power)
    also have "\<dots> \<le> x" using True by simp
    finally have "(2::rat) ^ (bit_length ?n - 1) \<le> x" .
    moreover have "0 < bit_length ?n" using n by (subst bit_length.simps) simp
    ultimately show ?thesis
      using True by (simp add: binary_exponent_def power_int_def nat_diff_distrib')
  next
    case False
    let ?c = "\<lceil>1 / x\<rceil>"
    let ?m = "nat (?c - 1)"
    from False assms have "1 < 1 / x" by (simp add: field_simps)
    then have c: "2 \<le> ?c"
      by (metis ceiling_less_cancel less_le_not_le not_le one_add_one ceiling_one int_one_le_iff_zero_less zless_add1_eq less_ceiling_iff of_int_1)
    then have m: "0 < ?m" by simp
    from bit_length_bounds [OF m] have "?m < 2 ^ bit_length ?m" by simp
    then have "?c - 1 < 2 ^ bit_length ?m" using c by (simp add: nat_less_iff)
    then have "?c \<le> 2 ^ bit_length ?m" by simp
    then have "1 / x \<le> 2 ^ bit_length ?m"
      by (metis ceiling_le_iff of_int_numeral of_int_power)
    then have "1 \<le> x * 2 ^ bit_length ?m" using assms by (simp add: field_simps)
    then have "inverse (2 ^ bit_length ?m) \<le> x"
      by (simp add: field_simps)
    moreover have "2 powi (- int (bit_length ?m)) = inverse ((2::rat) ^ bit_length ?m)"
      by (simp add: power_int_minus)
    ultimately show ?thesis
      using False by (simp add: binary_exponent_def)
  qed
  show "x < 2 powi (binary_exponent x + 1)"
  proof (cases "1 \<le> x")
    case True
    let ?n = "nat \<lfloor>x\<rfloor>"
    from True have n: "0 < ?n" by simp
    from bit_length_bounds [OF n] have "?n < 2 ^ bit_length ?n" by blast
    then have "?n + 1 \<le> 2 ^ bit_length ?n" by linarith
    then have "of_nat (?n + 1) \<le> (2::rat) ^ bit_length ?n"
      by (metis of_nat_le_iff of_nat_numeral of_nat_power)
    moreover have "x < of_nat (?n + 1)"
      using True by simp linarith
    ultimately have "x < (2::rat) ^ bit_length ?n" by simp
    then show ?thesis
      using True by (simp add: binary_exponent_def)
  next
    case False
    let ?c = "\<lceil>1 / x\<rceil>"
    let ?m = "nat (?c - 1)"
    from False assms have "1 < 1 / x" by (simp add: field_simps)
    then have c: "2 \<le> ?c"
      by (metis ceiling_less_cancel less_le_not_le not_le one_add_one ceiling_one int_one_le_iff_zero_less zless_add1_eq less_ceiling_iff of_int_1)
    then have m: "0 < ?m" by simp
    have pos: "0 < bit_length ?m" using m by (subst bit_length.simps) simp
    from bit_length_bounds [OF m] have "2 ^ (bit_length ?m - 1) \<le> ?m" by simp
    then have "(2::rat) ^ (bit_length ?m - 1) \<le> of_nat ?m"
      by (metis of_nat_le_iff of_nat_numeral of_nat_power)
    also have "of_nat ?m = of_int ?c - (1::rat)"
    proof -
      from c have "0 \<le> ?c - 1" by linarith
      then have "(of_nat ?m :: rat) = of_int (?c - 1)" by (rule of_nat_nat)
      then show ?thesis by (simp only: of_int_diff of_int_1)
    qed
    also have "\<dots> < 1 / x" by linarith
    finally have "(2::rat) ^ (bit_length ?m - 1) < 1 / x" .
    then have "x * 2 ^ (bit_length ?m - 1) < 1" using assms by (simp add: field_simps)
    then have "x < inverse (2 ^ (bit_length ?m - 1))"
      by (simp add: field_simps)
    moreover have "2 powi (- int (bit_length ?m) + 1) = inverse ((2::rat) ^ (bit_length ?m - 1))"
    proof -
      have "- int (bit_length ?m) + 1 = - int (bit_length ?m - 1)"
        using pos by simp
      then show ?thesis by (simp only: power_int_minus power_int_of_nat)
    qed
    ultimately show ?thesis
      using False by (simp add: binary_exponent_def)
  qed
qed

lemma round_half_even_error: "\<bar>of_int (round_half_even x) - x\<bar> \<le> 1 / 2"
proof -
  have "of_int \<lfloor>x\<rfloor> \<le> x" and "x < of_int \<lfloor>x\<rfloor> + 1"
    by linarith+
  then show ?thesis
    unfolding round_half_even_def Let_def
    by (auto simp: abs_le_iff)
qed

lemma double_round_error:
  assumes "0 \<le> x"
  shows "\<bar>double_round x - x\<bar> \<le> x / 2 ^ 53"
proof (cases "x = 0")
  case True
  then show ?thesis by (simp add: double_round_def)
next
  case False
  with assms have pos: "0 < x" by simp
  define e where "e = binary_exponent x"
  define u :: rat where "u = 2 powi (e - 52)"
  have u_pos: "0 < u" by (simp add: u_def)
  have "(2::rat) powi (e - 52 + 52) = 2 powi (e - 52) * 2 powi 52"
    by (rule power_int_add) simp
  then have scale: "2 powi e = u * 2 ^ 52"
    by (simp add: u_def)
  have dr: "double_round x = of_int (round_half_even (x / u)) * u"
    using pos by (simp add: double_round_def u_def e_def Let_def)
  have "double_round x - x = (of_int (round_half_even (x / u)) - x / u) * u"
    using u_pos by (simp add: dr field_simps)
  then have "\<bar>double_round x - x\<bar> = \<bar>of_int (round_half_even (x / u)) - x / u\<bar> * u"
    using u_pos by (simp add: abs_mult)
  also have "\<dots> \<le> (1 / 2) * u"
    using round_half_even_error [of "x / u"] u_pos by (intro mult_right_mono) simp_all
  also have "\<dots> = 2 powi e / 2 ^ 53"
    by (simp add: scale)
  also have "\<dots> \<le> x / 2 ^ 53"
    using binary_exponent_bounds(1) [OF pos] by (simp add: e_def divide_right_mono)
  finally show ?thesis .
qed

lemma double_round_bounds:
  assumes "0 \<le> x"
  shows "x * (1 - 1 / 2 ^ 53) \<le> double_round x" and "double_round x \<le> x * (1 + 1 / 2 ^ 53)"
proof -
  define d where "d = x / 2 ^ 53"
  have err: "\<bar>double_round x - x\<bar> \<le> d"
    using double_round_error [OF assms] by (simp only: d_def)
  have lo: "x * (1 - 1 / 2 ^ 53) = x - d" and hi: "x * (1 + 1 / 2 ^ 53) = x + d"
    by (simp_all add: d_def algebra_simps)
  show "x * (1 - 1 / 2 ^ 53) \<le> double_round x"
    unfolding lo using err by linarith
  show "double_round x \<le> x * (1 + 1 / 2 ^ 53)"
    unfolding hi using err by linarith
qed

lemma double_round_nonneg:
  assumes "0 \<le> x"
  shows "0 \<le> double_round x"
proof -
  have "0 \<le> x * (1 - 1 / 2 ^ 53)"
    using assms by (intro mult_nonneg_nonneg) simp_all
  with double_round_bounds(1) [OF assms] show ?thesis by linarith
qed

subsection \<open>The scaled side\<close>

text \<open>Three roundings in a row: the two operands and their product.\<close>

lemma scaled_value:
  assumes "0 < b" and "a \<le> b"
  defines "E \<equiv> (2048 * of_nat a / of_nat b :: rat)"
    and "C \<equiv> double_round (double_round (of_nat a) * double_round (2048 / of_nat b))"
  shows "E - 1 / 2 ^ 40 \<le> C" and "C \<le> E + 1 / 2 ^ 40"
proof -
  define eps :: rat where "eps = 1 / 2 ^ 53"
  define x where "x = double_round (of_nat a)"
  define y where "y = double_round (2048 / of_nat b)"
  have eps: "0 < eps" "eps < 1" by (simp_all add: eps_def)
  have a0: "(0::rat) \<le> of_nat a" and q0: "(0::rat) \<le> 2048 / of_nat b"
    using assms by simp_all
  have x: "of_nat a * (1 - eps) \<le> x" "x \<le> of_nat a * (1 + eps)" "0 \<le> x"
    using double_round_bounds [OF a0] double_round_nonneg [OF a0] by (simp_all add: x_def eps_def)
  have y: "2048 / of_nat b * (1 - eps) \<le> y" "y \<le> 2048 / of_nat b * (1 + eps)" "0 \<le> y"
    using double_round_bounds [OF q0] double_round_nonneg [OF q0] by (simp_all add: y_def eps_def)
  have E: "0 \<le> E" "E \<le> 2048"
    using assms by (simp_all add: E_def field_simps)
  have E_eq: "E = of_nat a * (2048 / of_nat b)" by (simp add: E_def)
  have xy0: "0 \<le> x * y" using x y by simp
  have "(of_nat a * (1 - eps)) * (2048 / of_nat b * (1 - eps)) \<le> x * y"
    using x y eps q0 a0 by (intro mult_mono) simp_all
  then have lo: "E * (1 - eps)\<^sup>2 \<le> x * y"
    by (simp add: E_eq power2_eq_square algebra_simps)
  have "x * y \<le> (of_nat a * (1 + eps)) * (2048 / of_nat b * (1 + eps))"
    using x y eps q0 a0 by (intro mult_mono) simp_all
  then have hi: "x * y \<le> E * (1 + eps)\<^sup>2"
    by (simp add: E_eq power2_eq_square algebra_simps)
  have C: "x * y * (1 - eps) \<le> C" "C \<le> x * y * (1 + eps)"
    using double_round_bounds [OF xy0] by (simp_all add: C_def x_def y_def eps_def)
  have "E * (1 - eps)\<^sup>2 * (1 - eps) \<le> x * y * (1 - eps)"
    using lo eps by (intro mult_right_mono) simp_all
  with C(1) have lower: "E * ((1 - eps)\<^sup>2 * (1 - eps)) \<le> C" by (simp add: mult.assoc)
  have "x * y * (1 + eps) \<le> E * (1 + eps)\<^sup>2 * (1 + eps)"
    using hi eps by (intro mult_right_mono) simp_all
  with C(2) have upper: "C \<le> E * ((1 + eps)\<^sup>2 * (1 + eps))" by (simp add: mult.assoc)
  have small_hi: "(1 + eps)\<^sup>2 * (1 + eps) \<le> 1 + 1 / 2 ^ 51"
    by (simp add: eps_def power2_eq_square)
  have small_lo: "1 - 1 / 2 ^ 51 \<le> (1 - eps)\<^sup>2 * (1 - eps)"
    by (simp add: eps_def power2_eq_square)
  have "C \<le> E * (1 + 1 / 2 ^ 51)"
    using upper mult_left_mono [OF small_hi E(1)] by linarith
  also have "\<dots> = E + E / 2 ^ 51" by (simp add: algebra_simps)
  also have "\<dots> \<le> E + 2048 / 2 ^ 51" using E(2) by (simp add: divide_right_mono)
  finally show "C \<le> E + 1 / 2 ^ 40" by simp
  have "E - 2048 / 2 ^ 51 \<le> E - E / 2 ^ 51" using E(2) by (simp add: divide_right_mono)
  also have "\<dots> = E * (1 - 1 / 2 ^ 51)" by (simp add: algebra_simps)
  also have "\<dots> \<le> C"
    using lower mult_left_mono [OF small_lo E(1)] by linarith
  finally show "E - 1 / 2 ^ 40 \<le> C" by simp
qed

lemma scaled_bounds:
  assumes "0 < b" and "a \<le> b"
  shows "scaled a b \<le> 2048"
    and "\<bar>of_nat (scaled a b) - 2048 * of_nat a / of_nat b\<bar> < (1 + 1 / 2 ^ 40 :: rat)"
proof -
  define E :: rat where "E = 2048 * of_nat a / of_nat b"
  define C where "C = double_round (double_round (of_nat a) * double_round (2048 / of_nat b))"
  from scaled_value [OF assms] have C: "E - 1 / 2 ^ 40 \<le> C" "C \<le> E + 1 / 2 ^ 40"
    by (simp_all add: E_def C_def)
  have "0 \<le> double_round (of_nat a) * double_round (2048 / of_nat b)"
    using assms by (intro mult_nonneg_nonneg double_round_nonneg) simp_all
  then have C0: "0 \<le> C"
    unfolding C_def by (rule double_round_nonneg)
  have s: "scaled a b = nat \<lfloor>C\<rfloor>"
    by (simp add: scaled_def C_def self_max_dimension_def)
  from C0 have fl: "(of_nat (nat \<lfloor>C\<rfloor>) :: rat) = of_int \<lfloor>C\<rfloor>"
    by simp
  have E: "E \<le> 2048"
    using assms by (simp add: E_def field_simps)
  have floor_le: "of_int \<lfloor>C\<rfloor> \<le> C" and floor_gt: "C < of_int \<lfloor>C\<rfloor> + 1"
    by linarith+
  have "C < 2049"
    using C(2) E by simp
  then have "\<lfloor>C\<rfloor> < 2049"
    by (simp add: floor_less_iff)
  then have "nat \<lfloor>C\<rfloor> \<le> 2048"
    by linarith
  then show "scaled a b \<le> 2048"
    by (simp only: s)
  show "\<bar>of_nat (scaled a b) - 2048 * of_nat a / of_nat b\<bar> < (1 + 1 / 2 ^ 40 :: rat)"
    unfolding s fl E_def [symmetric]
    using C floor_le floor_gt by linarith
qed

subsection \<open>The processed copy\<close>

lemma pil_call_result:
  "pil_call lib name img out = Inr res \<Longrightarrow> res = out"
  by (simp add: pil_call_def split: option.splits)

lemma autocontrast_result:
  assumes "autocontrast lib img = Inr res"
  shows "mode img = ''L'' \<or> mode img = ''RGB''" and "res = img \<lparr> image_format := None \<rparr>"
  using assms
  by (auto simp: autocontrast_def enhance_def split: if_splits dest: pil_call_result)

lemma enhance_image_result:
  assumes "enhance_image lib img = Inr res"
  shows "mode res = mode img" and "width res = width img" and "height res = height img"
    and "mode img = ''L'' \<or> mode img = ''RGB''"
proof -
  from assms obtain img1 img2 where
    "enhance lib ''Contrast'' img = Inr img1"
    "enhance lib ''Sharpness'' img1 = Inr img2"
    and last: "autocontrast lib img2 = Inr res"
    by (auto simp: enhance_image_def split: sum.splits)
  then have "img1 = img \<lparr> image_format := None \<rparr>" "img2 = img1 \<lparr> image_format := None \<rparr>"
    by (auto simp: enhance_def dest: pil_call_result)
  with autocontrast_result [OF last]
  show "mode res = mode img" and "width res = width img" and "height res = height img"
    and "mode img = ''L'' \<or> mode img = ''RGB''"
    by simp_all
qed

lemma resize_image_result:
  assumes "resize_image lib img = Inr res"
  shows "mode res = mode img"
    and "width res \<le> 2048 \<and> height res \<le> 2048"
    and "width img \<le> 2048 \<and> height img \<le> 2048 \<longrightarrow> res = img"
    and "width img > 2048 \<or> height img > 2048 \<longrightarrow>
           max (width res) (height res) = 2048
           \<and> \<bar>of_nat (min (width res) (height res))
               - 2048 * of_nat (min (width img) (height img))
                 / of_nat (max (width img) (height img))\<bar> < (1 + 1 / 2 ^ 40 :: rat)"
proof -
  consider (within) "width img \<le> 2048" "height img \<le> 2048"
    | (wide) "\<not> (width img \<le> 2048 \<and> height img \<le> 2048)" "width img > height img"
    | (tall) "\<not> (width img \<le> 2048 \<and> height img \<le> 2048)" "\<not> width img > height img"
    by blast
  then have "mode res = mode img
    \<and> (width res \<le> 2048 \<and> height res \<le> 2048)
    \<and> (width img \<le> 2048 \<and> height img \<le> 2048 \<longrightarrow> res = img)
    \<and> (width img > 2048 \<or> height img > 2048 \<longrightarrow>
           max (width res) (height res) = 2048
           \<and> \<bar>of_nat (min (width res) (height res))
               - 2048 * of_nat (min (width img) (height img))
                 / of_nat (max (width img) (height img))\<bar> < (1 + 1 / 2 ^ 40 :: rat))"
  proof cases
    case within
    with assms show ?thesis
      by (simp add: resize_image_def self_max_dimension_def)
  next
    case wide
    then have pos: "0 < width img" and le: "height img \<le> width img" by linarith+
    from wide assms
    have "resize lib img (2048, scaled (height img) (width img)) = Inr res"
      by (auto simp: resize_image_def self_max_dimension_def split: if_splits)
    then have res: "res = img \<lparr> image_format := None, width := 2048,
                               height := scaled (height img) (width img) \<rparr>"
      by (auto simp: resize_def dest: pil_call_result)
    from scaled_bounds [OF pos le] wide res show ?thesis
      by (simp add: max_def min_def)
  next
    case tall
    then have pos: "0 < height img" and le: "width img \<le> height img" by linarith+
    from tall assms
    have "resize lib img (scaled (width img) (height img), 2048) = Inr res"
      by (auto simp: resize_image_def self_max_dimension_def split: if_splits)
    then have res: "res = img \<lparr> image_format := None,
                               width := scaled (width img) (height img), height := 2048 \<rparr>"
      by (auto simp: resize_def dest: pil_call_result)
    from scaled_bounds [OF pos le] tall res show ?thesis
      by (auto simp add: max_def min_def)
  qed
  then show "mode res = mode img"
    and "width res \<le> 2048 \<and> height res \<le> 2048"
    and "width img \<le> 2048 \<and> height img \<le> 2048 \<longrightarrow> res = img"
    and "width img > 2048 \<or> height img > 2048 \<longrightarrow>
           max (width res) (height res) = 2048
           \<and> \<bar>of_nat (min (width res) (height res))
               - 2048 * of_nat (min (width img) (height img))
                 / of_nat (max (width img) (height img))\<bar> < (1 + 1 / 2 ^ 40 :: rat)"
    by blast+
qed

text \<open>
  A run of the steps that returns an image: the image that reaches
  \<open>remove_transparency\<close> has mode \<open>RGB\<close>, because auto-contrast has let it pass.
\<close>

lemma processed_steps:
  assumes "processed lib img = Inr out"
  obtains img1 img2 where
    "(if mode img \<notin> set [''RGB'', ''RGBA''] then convert lib img ''RGB'' else Inr img) = Inr img1"
    and "resize_image lib img1 = Inr img2"
    and "enhance_image lib img2 = Inr out"
    and "mode out = ''RGB''"
    and "remove_transparency out = out"
proof -
  from assms obtain img1 img2 img3 where
    first: "(if mode img \<notin> set [''RGB'', ''RGBA''] then convert lib img ''RGB'' else Inr img)
              = Inr img1"
    and resized: "resize_image lib img1 = Inr img2"
    and enhanced: "enhance_image lib img2 = Inr img3"
    and out: "out = remove_transparency img3"
    by (auto simp: processed_def split: sum.splits)
  have "mode img1 = ''RGB'' \<or> mode img1 = ''RGBA''"
    using first by (auto simp: convert_def split: if_splits dest: pil_call_result)
  with resize_image_result(1) [OF resized] enhance_image_result(1,4) [OF enhanced]
  have rgb: "mode img3 = ''RGB''"
    by auto
  then have same: "remove_transparency img3 = img3"
    by (simp add: remove_transparency_def)
  with out have "out = img3"
    by simp
  with first resized enhanced rgb same show ?thesis
    by (intro that) simp_all
qed

lemma processed_never_flattens:
  assumes "processed lib img = Inr out"
  shows "mode img \<noteq> ''RGBA''"
proof
  assume rgba: "mode img = ''RGBA''"
  from assms obtain img1 img2 where
    first: "(if mode img \<notin> set [''RGB'', ''RGBA''] then convert lib img ''RGB'' else Inr img)
              = Inr img1"
    and resized: "resize_image lib img1 = Inr img2"
    and enhanced: "enhance_image lib img2 = Inr out"
    by (rule processed_steps)
  from first rgba have "mode img1 = ''RGBA''"
    by simp
  with resize_image_result(1) [OF resized] enhance_image_result(4) [OF enhanced]
  show False
    by simp
qed

text \<open>
  An upload that decodes to an \<open>RGBA\<close> image gets no processed copy, whatever the
  library does elsewhere: the call raises and the files are those before the call.
\<close>

lemma rgba_no_copy:
  assumes "open_path lib image_path = Inr img" and "mode img = ''RGBA''"
  shows "\<exists>e. preprocess_image lib st image_path image_id = (Inl e, st)"
proof (cases "processed lib img")
  case (Inl e)
  with assms(1) show ?thesis
    by (simp add: preprocess_image_def)
next
  case (Inr out)
  from processed_never_flattens [OF this] assms(2) show ?thesis
    by simp
qed

text \<open>
  What holds of every processed copy: it is the file written under the returned path;
  neither side is longer than 2048 pixels; its mode is \<open>RGB\<close>; an image whose sides are
  both within 2048 pixels keeps its size; and otherwise the longer side becomes 2048 and
  the shorter side differs from the exactly proportional length by less than one pixel
  (plus the floating-point error, below \<open>2^-40\<close>).  The original had no mode \<open>RGBA\<close>.
\<close>

lemma processed_result:
  assumes "processed lib img = Inr out"
  shows "mode out = ''RGB''"
    and "width out \<le> 2048 \<and> height out \<le> 2048"
    and "width img \<le> 2048 \<and> height img \<le> 2048 \<longrightarrow>
           width out = width img \<and> height out = height img"
    and "width img > 2048 \<or> height img > 2048 \<longrightarrow>
           max (width out) (height out) = 2048
           \<and> \<bar>of_nat (min (width out) (height out))
               - 2048 * of_nat (min (width img) (height img))
                 / of_nat (max (width img) (height img))\<bar> < (1 + 1 / 2 ^ 40 :: rat)"
proof -
  from assms obtain img1 img2 where
    first: "(if mode img \<notin> set [''RGB'', ''RGBA''] then convert lib img ''RGB'' else Inr img)
              = Inr img1"
    and resized: "resize_image lib img1 = Inr img2"
    and enhanced: "enhance_image lib img2 = Inr out"
    and rgb: "mode out = ''RGB''"
    by (rule processed_steps)
  have img1: "width img1 = width img" "height img1 = height img"
    using first by (auto simp: convert_def split: if_splits dest: pil_call_result)
  note r = resize_image_result [OF resized]
  note e = enhance_image_result [OF enhanced]
  show "mode out = ''RGB''"
    by (rule rgb)
  have size: "width out = width img2" "height out = height img2"
    using e by simp_all
  from r(2) show "width out \<le> 2048 \<and> height out \<le> 2048"
    by (simp add: size)
  from r(3) img1 show "width img \<le> 2048 \<and> height img \<le> 2048 \<longrightarrow>
      width out = width img \<and> height out = height img"
    by (auto simp: size)
  from r(4) img1 show "width img > 2048 \<or> height img > 2048 \<longrightarrow>
      max (width out) (height out) = 2048
      \<and> \<bar>of_nat (min (width out) (height out))
          - 2048 * of_nat (min (width img) (height img))
            / of_nat (max (width img) (height img))\<bar> < (1 + 1 / 2 ^ 40 :: rat)"
    by (simp add: size)
qed

lemma processed_copy_bounds:
  assumes "preprocess_image lib st image_path image_id = (Inr processed_path, st')"
  shows "\<exists>img out.
           open_path lib image_path = Inr img
           \<and> mode img \<noteq> ''RGBA''
           \<and> processed lib img = Inr out
           \<and> map_of (files st') processed_path = Some (png_bytes lib out)
           \<and> width out \<le> 2048 \<and> height out \<le> 2048
           \<and> mode out = ''RGB''
           \<and> (width img \<le> 2048 \<and> height img \<le> 2048 \<longrightarrow>
                 width out = width img \<and> height out = height img)
           \<and> (width img > 2048 \<or> height img > 2048 \<longrightarrow>
                 max (width out) (height out) = 2048
                 \<and> \<bar>of_nat (min (width out) (height out))
                     - 2048 * of_nat (min (width img) (height img))
                       / of_nat (max (width img) (height img))\<bar> < (1 + 1 / 2 ^ 40 :: rat))"
proof -
  from assms obtain img out where
    opened: "open_path lib image_path = Inr img"
    and finished: "processed lib img = Inr out"
    and saved: "processed_path = sibling_path image_path (image_id @ ''_processed.png'')"
      "st' = st \<lparr> files := write_file processed_path (png_bytes lib out) (files st) \<rparr>"
    by (auto simp: preprocess_image_def Let_def split: sum.splits option.splits)
  have "map_of (files st') processed_path = Some (png_bytes lib out)"
    by (simp add: saved(2) write_file_def)
  with opened finished processed_result [OF finished] processed_never_flattens [OF finished]
  show ?thesis
    by blast
qed

lemma floor_numeral_div: "\<lfloor>numeral a / numeral b :: rat\<rfloor> = numeral a div numeral b"
  using floor_divide_of_int_eq [of "numeral a" "numeral b", where ?'a = rat] by simp

lemma ceiling_numeral_div:
  "\<lceil>numeral a / numeral b :: rat\<rceil> = - ((- numeral a) div numeral b)"
  using floor_divide_of_int_eq [of "- numeral a" "numeral b", where ?'a = rat]
  by (simp add: ceiling_def)

text \<open>
  The rounding shows in the sample: the exact quotient \<open>2048 * 1122 / 2244\<close> is 1024,
  the computed product is just below it.
\<close>

lemma sample_scaled: "scaled 1122 2244 = 1023"
  by (simp add: scaled_def self_max_dimension_def double_round_def binary_exponent_def
        bit_length.simps round_half_even_def Let_def floor_numeral_div ceiling_numeral_div)

lemma sample_processed:
  "processed (sample_pil ''RGBA'')
     \<lparr> image_format = Some ''PNG'', mode = ''RGBA'', width = 2244, height = 1122 \<rparr>
     = Inl (OtherException ''not supported for mode RGBA'')"
  "processed (sample_pil ''RGB'')
     \<lparr> image_format = Some ''PNG'', mode = ''RGB'', width = 2244, height = 1122 \<rparr>
     = Inr \<lparr> image_format = None, mode = ''RGB'', width = 2048, height = 1023 \<rparr>"
  by (simp_all add: processed_def resize_image_def enhance_image_def autocontrast_def
        enhance_def resize_def pil_call_def remove_transparency_def sample_pil_def
        self_max_dimension_def sample_scaled)

text \<open>
  C7.  The claim fails on the code for an upload with an alpha channel, here a PNG file of
  2244 by 1122 pixels in mode \<open>RGBA\<close>.  The image keeps its mode through the resizing and
  the two enhancers, and auto-contrast, which \<open>_enhance_image\<close> calls before
  \<open>_remove_transparency\<close> runs, refuses it: preprocessing raises, the upload
  directory holds what it held before, no processed copy among it, and the step that
  pastes the picture on a white background is not reached.  The same picture without
  alpha channel is processed as the claim says: a copy of 2048 by 1023 pixels in mode
  \<open>RGB\<close> is written beside the upload.
\<close>

theorem rgba_upload_not_processed:
  "preprocess_image (sample_pil ''RGBA'') sample_server ''uploads/id1_d.png'' ''id1''
     = (Inl (OtherException ''not supported for mode RGBA''), sample_server)
   \<and> map_of (files (snd (preprocess_image (sample_pil ''RGBA'') sample_server
                           ''uploads/id1_d.png'' ''id1'')))
        ''uploads/id1_processed.png'' = None
   \<and> processed (sample_pil ''RGB'')
        \<lparr> image_format = Some ''PNG'', mode = ''RGB'', width = 2244, height = 1122 \<rparr>
      = Inr \<lparr> image_format = None, mode = ''RGB'', width = 2048, height = 1023 \<rparr>
   \<and> preprocess_image (sample_pil ''RGB'') sample_server ''uploads/id1_d.png'' ''id1''
     = (Inr ''uploads/id1_processed.png'',
        sample_server \<lparr> files := [(''uploads/id1_processed.png'', ''PNG''),
                                   (''uploads/id1_d.png'', ''x'')] \<rparr>)"
proof -
  note rgba = sample_processed(1) and rgb = sample_processed(2)
  have opened: "open_path (sample_pil m) ''uploads/id1_d.png''
                  = Inr \<lparr> image_format = Some ''PNG'', mode = m, width = 2244, height = 1122 \<rparr>"
    for m
    by (simp add: sample_pil_def)
  have refused:
    "preprocess_image (sample_pil ''RGBA'') sample_server ''uploads/id1_d.png'' ''id1''
       = (Inl (OtherException ''not supported for mode RGBA''), sample_server)"
    by (simp add: preprocess_image_def opened rgba)
  have absent: "map_of (files sample_server) ''uploads/id1_processed.png'' = None"
    by (simp add: sample_server_def)
  have path: "sibling_path ''uploads/id1_d.png'' ''id1_processed.png''
                = ''uploads/id1_processed.png''"
    by (simp add: sibling_path_def)
  have written:
    "preprocess_image (sample_pil ''RGB'') sample_server ''uploads/id1_d.png'' ''id1''
       = (Inr ''uploads/id1_processed.png'',
          sample_server \<lparr> files := [(''uploads/id1_processed.png'', ''PNG''),
                                     (''uploads/id1_d.png'', ''x'')] \<rparr>)"
    by (simp add: preprocess_image_def opened rgb path Let_def)
       (simp add: sample_pil_def sample_server_def write_file_def)
  from refused absent rgb written show ?thesis
    by simp
qed

end
